theory Spec2Isabelle
  imports Complex_Main
begin

section \<open>Data model of the triage bot (alerts/actions/triage-bot module)\<close>

text \<open>
  An alert, a directory response and a configuration file are JSON documents that Python
  holds as nested dicts, lists, strings, numbers, booleans and \<open>None\<close>.  A dict is an
  association list read with \<open>map_of\<close> (keys of a JSON object are strings); \<open>JNull\<close> is
  Python's \<open>None\<close>.  Numbers are integers: no function of the module computes with a number
  taken from a document.
\<close>

datatype json =
    JNull
  | JBool bool
  | JNum int
  | JStr string
  | JList "json list"
  | JDict "(string \<times> json) list"

text \<open>The exceptions the module's code can raise or let through.\<close>

datatype error =
    KeyError
  | IndexError
  | TypeError
  | AttributeError
  | ValueError
  | RequestException
  | AuthFailure
  | OtherError string

datatype AlertLabel =
    SENSITIVE_HOST_SESSION
  | DUO_BYPASS_CODES_USED
  | DUO_BYPASS_CODES_GENERATED
  | SSH_ACCESS_SIGN_RELENG

fun AlertLabel_value :: "AlertLabel \<Rightarrow> string" where
  "AlertLabel_value SENSITIVE_HOST_SESSION = ''sensitive_host_session''"
| "AlertLabel_value DUO_BYPASS_CODES_USED = ''duo_bypass_codes_used''"
| "AlertLabel_value DUO_BYPASS_CODES_GENERATED = ''duo_bypass_codes_generated''"
| "AlertLabel_value SSH_ACCESS_SIGN_RELENG = ''ssh_access_sign_releng''"

text \<open>
  \<open>AlertTriageRequest\<close>: the identifier is \<open>a['_id']\<close> and the user is a value read from the
  alert or from the directory response, so both are JSON values (the annotations \<open>str\<close> and
  \<open>Email\<close> are not enforced by Python).
\<close>

record AlertTriageRequest =
  "identifier" :: json
  alert :: AlertLabel
  summary :: string
  user :: json

record AuthParams =
  client_id :: json
  client_secret :: json
  audience :: string
  scope :: string
  grants :: string

text \<open>A \<open>datetime\<close> is a point of the time line, counted in microseconds.\<close>

type_synonym datetime = int

record User =
  created :: datetime
  first_name :: json
  last_name :: json
  alternative_name :: json
  primary_email :: json
  mozilla_ldap_primary_email :: json

datatype DispatchResult = SUCCESS | FAILURE | INDETERMINATE

definition OAUTH_URL :: string where
  "OAUTH_URL = ''https://auth.mozilla.auth0.com/oauth/token''"

definition PERSON_API_BASE :: string where
  "PERSON_API_BASE = ''https://person.api.sso.mozilla.com''"

definition PERSON_API_AUDIENCE :: string where
  "PERSON_API_AUDIENCE = ''''"

definition PERSON_API_SCOPE :: string where
  "PERSON_API_SCOPE = ''''"

definition PERSON_API_GRANTS :: string where
  "PERSON_API_GRANTS = ''''"

definition TOKEN_VALIDITY_WINDOW_MINUTES :: int where
  "TOKEN_VALIDITY_WINDOW_MINUTES = 18 * 60"

section \<open>Python's operations on documents\<close>

text \<open>Sequencing of steps that may raise: the first exception ends the computation.\<close>

definition bindE :: "error + 'a \<Rightarrow> ('a \<Rightarrow> error + 'b) \<Rightarrow> error + 'b" where
  "bindE m f = (case m of Inl e \<Rightarrow> Inl e | Inr x \<Rightarrow> f x)"

text \<open>\<open>d.get(k, default)\<close>: only a dict has the method.\<close>

fun py_get :: "json \<Rightarrow> string \<Rightarrow> json \<Rightarrow> error + json" where
  "py_get (JDict kvs) k dflt = Inr (case map_of kvs k of None \<Rightarrow> dflt | Some v \<Rightarrow> v)"
| "py_get _ k dflt = Inl AttributeError"

text \<open>\<open>d[k]\<close> with a string key: a missing key raises, and so does any value that is not a dict.\<close>

fun py_item :: "json \<Rightarrow> string \<Rightarrow> error + json" where
  "py_item (JDict kvs) k = (case map_of kvs k of None \<Rightarrow> Inl KeyError | Some v \<Rightarrow> Inr v)"
| "py_item _ k = Inl TypeError"

text \<open>
  \<open>xs[0]\<close>: the first element of a list or the first character of a string, IndexError when
  there is none; a dict has no key \<open>0\<close> (its keys are strings).
\<close>

fun py_first :: "json \<Rightarrow> error + json" where
  "py_first (JList []) = Inl IndexError"
| "py_first (JList (x # xs)) = Inr x"
| "py_first (JStr []) = Inl IndexError"
| "py_first (JStr (c # cs)) = Inr (JStr [c])"
| "py_first (JDict kvs) = Inl KeyError"
| "py_first _ = Inl TypeError"

fun starts_with :: "string \<Rightarrow> string \<Rightarrow> bool" where
  "starts_with [] ys = True"
| "starts_with (x # xs) [] = False"
| "starts_with (x # xs) (y # ys) = (x = y \<and> starts_with xs ys)"

fun str_contains :: "string \<Rightarrow> string \<Rightarrow> bool" where
  "str_contains n [] = (n = [])"
| "str_contains n (y # ys) = (starts_with n (y # ys) \<or> str_contains n ys)"

text \<open>
  \<open>s in c\<close> for a string \<open>s\<close>: an element of a list, a substring of a string, a key of a
  dict; \<open>None\<close>, a number and a boolean are not iterable.
\<close>

fun py_in :: "string \<Rightarrow> json \<Rightarrow> error + bool" where
  "py_in s (JList xs) = Inr (JStr s \<in> set xs)"
| "py_in s (JStr t) = Inr (str_contains s t)"
| "py_in s (JDict kvs) = Inr (s \<in> fst ` set kvs)"
| "py_in s _ = Inl TypeError"

text \<open>\<open>s.split(' ')\<close> has at least one element, so \<open>[-1]\<close> never fails on it.\<close>

fun split_on :: "char \<Rightarrow> string \<Rightarrow> string list" where
  "split_on c [] = [[]]"
| "split_on c (x # xs) =
     (if x = c then [] # split_on c xs
      else (case split_on c xs of [] \<Rightarrow> [[x]] | w # ws \<Rightarrow> (x # w) # ws))"

fun py_split_last :: "json \<Rightarrow> error + json" where
  "py_split_last (JStr s) = Inr (JStr (last (split_on CHR '' '' s)))"
| "py_split_last _ = Inl AttributeError"

text \<open>
  \<open>'{}'.format(v)\<close> is \<open>str(v)\<close>: the string itself, \<open>'None'\<close>, \<open>'True'\<close> or \<open>'False'\<close>; the
  rendering of numbers and containers is the interpreter's, taken as \<open>repr\<close>.
\<close>

fun py_str :: "(json \<Rightarrow> string) \<Rightarrow> json \<Rightarrow> string" where
  "py_str repr (JStr s) = s"
| "py_str repr JNull = ''None''"
| "py_str repr (JBool True) = ''True''"
| "py_str repr (JBool False) = ''False''"
| "py_str repr v = repr v"

section \<open>Dispatcher\<close>

text \<open>
  \<open>dispatch\<close> (lines 292-311).  The payload is the request as a dict with the label replaced
  by its string value; \<open>json.dumps\<close> and the encoding to bytes are the library's and cannot
  fail on JSON values, so the dict itself is what \<open>invoke\<close> receives.  \<open>invoke\<close> is
  \<open>lambda_.invoke\<close>: it raises, or returns a response, of which the model keeps the
  integer entries (\<open>StatusCode\<close> is an integer in the service's interface).
\<close>

type_synonym lambda_invoke = "json \<Rightarrow> json \<Rightarrow> error + (string \<times> int) list"

definition payload_dict :: "AlertTriageRequest \<Rightarrow> json" where
  "payload_dict req =
     JDict [(''identifier'', identifier req),
            (''alert'', JStr (AlertLabel_value (alert req))),
            (''summary'', JStr (summary req)),
            (''user'', user req)]"

definition dispatch :: "lambda_invoke \<Rightarrow> AlertTriageRequest \<Rightarrow> json \<Rightarrow> DispatchResult" where
  "dispatch invoke req fn_name =
     (let payload = payload_dict req;
          status = (case invoke fn_name payload of
                      Inl e \<Rightarrow> 500
                    | Inr resp \<Rightarrow>
                        (case map_of resp ''StatusCode'' of None \<Rightarrow> 400 | Some s \<Rightarrow> s))
      in if status \<ge> 400 then FAILURE
         else if status < 300 then SUCCESS
         else INDETERMINATE)"

section \<open>The world outside the module\<close>

text \<open>
  The libraries the module calls are parameters of the model:
  \<^item> \<open>str_of\<close>: the interpreter's rendering of a number or a container (see \<open>py_str\<close>);
  \<^item> \<open>urljoin\<close>: \<open>urllib.parse.urljoin\<close>;
  \<^item> \<open>requests_get\<close>, \<open>requests_post\<close>: the HTTP call raises (outer \<open>Inl\<close>) or returns a
    response, whose \<open>.json()\<close> raises (inner \<open>Inl\<close>) or returns the parsed body;
  \<^item> \<open>strptime\<close>: \<open>datetime.strptime(s, '%Y-%m-%dT%H:%M:%S.%fZ')\<close> on a string, \<open>None\<close>
    where Python raises ValueError;
  \<^item> \<open>boto_client\<close>: \<open>boto_session.client('lambda')\<close> raises or returns the client, whose
    \<open>invoke\<close> is the function received.
\<close>

record env =
  str_of :: "json \<Rightarrow> string"
  urljoin :: "string \<Rightarrow> string \<Rightarrow> string"
  requests_get :: "string \<Rightarrow> (string \<times> string) list \<Rightarrow> error + (error + json)"
  requests_post :: "string \<Rightarrow> json \<Rightarrow> error + (error + json)"
  strptime :: "string \<Rightarrow> datetime option"
  boto_client :: "error + lambda_invoke"

section \<open>Directory client\<close>

text \<open>
  \<open>authenticate\<close> (lines 217-235).  The bare \<open>except\<close> turns every exception of the call,
  of \<open>.json()\<close> and of \<open>.get\<close> into \<open>None\<close>; a body without the key gives \<open>None\<close> too.
\<close>

definition authenticate :: "env \<Rightarrow> string \<Rightarrow> AuthParams \<Rightarrow> json" where
  "authenticate env url params =
     (let payload = JDict [(''client_id'', client_id params),
                           (''client_secret'', client_secret params),
                           (''audience'', JStr (audience params)),
                           (''scope'', JStr (scope params)),
                           (''grant_type'', JStr (grants params))]
      in case requests_post env url payload of
           Inl e \<Rightarrow> JNull
         | Inr resp \<Rightarrow>
             (case bindE resp (\<lambda>body. py_get body ''access_token'' JNull) of
                Inl e \<Rightarrow> JNull
              | Inr tkn \<Rightarrow> tkn))"

text \<open>\<open>datetime.strptime\<close> on any value: a value that is not a string raises TypeError.\<close>

fun py_strptime :: "env \<Rightarrow> json \<Rightarrow> error + datetime" where
  "py_strptime env (JStr s) = (case strptime env s of None \<Rightarrow> Inl ValueError | Some d \<Rightarrow> Inr d)"
| "py_strptime env _ = Inl TypeError"

text \<open>
  The expressions of lines 271 and 276: \<open>data.get('created', {}).get('value', '')\<close> and
  \<open>data['identities']['mozilla_ldap_primary_email']\<close>.
\<close>

definition created_value :: "json \<Rightarrow> error + json" where
  "created_value data =
     bindE (py_get data ''created'' (JDict [])) (\<lambda>c. py_get c ''value'' (JStr ''''))"

definition ldap_identity :: "json \<Rightarrow> error + json" where
  "ldap_identity data =
     bindE (py_item data ''identities'') (\<lambda>i. py_item i ''mozilla_ldap_primary_email'')"

text \<open>\<open>data[k].get('value', 'N/A')\<close>, the reading of each soft field of the profile.\<close>

definition value_or_na :: "json \<Rightarrow> string \<Rightarrow> error + json" where
  "value_or_na data k = bindE (py_item data k) (\<lambda>w. py_get w ''value'' (JStr ''N/A''))"

text \<open>
  \<open>primary_username\<close> (lines 238-286).  Only \<open>RequestException\<close> of the GET and \<open>ValueError\<close>
  of the timestamp block are caught; \<open>resp.json()\<close> is outside both \<open>try\<close> blocks.  The
  fields of \<open>User(...)\<close> are evaluated in the order written.  \<open>full_url\<close> and \<open>headers\<close> are
  the locals of lines 255-260.
\<close>

definition full_url :: "env \<Rightarrow> string \<Rightarrow> json \<Rightarrow> string" where
  "full_url env base uname =
     (let route = ''/v2/user/primary_username/'' @ py_str (str_of env) uname
      in urljoin env base route)"

definition headers :: "env \<Rightarrow> json \<Rightarrow> (string \<times> string) list" where
  "headers env tkn = [(''Authorization'', ''Bearer '' @ py_str (str_of env) tkn)]"

definition primary_username :: "env \<Rightarrow> string \<Rightarrow> json \<Rightarrow> json \<Rightarrow> error + User option" where
  "primary_username env base tkn uname =
     (case requests_get env (full_url env base uname) (headers env tkn) of
           Inl e \<Rightarrow> (if e = RequestException then Inr None else Inl e)
         | Inr resp \<Rightarrow>
             bindE resp (\<lambda>data.
             case bindE (created_value data) (py_strptime env) of
               Inl e \<Rightarrow> (if e = ValueError then Inr None else Inl e)
             | Inr created_at \<Rightarrow>
                 bindE (bindE (ldap_identity data) (\<lambda>l. py_get l ''value'' JNull))
                   (\<lambda>ldap_email.
                 if ldap_email = JNull then Inr None
                 else
                   bindE (value_or_na data ''first_name'') (\<lambda>fname.
                   bindE (value_or_na data ''last_name'') (\<lambda>lname.
                   bindE (value_or_na data ''alternative_name'') (\<lambda>aname.
                   bindE (value_or_na data ''primary_email'') (\<lambda>pmail.
                   Inr (Some \<lparr>created = created_at,
                              first_name = fname,
                              last_name = lname,
                              alternative_name = aname,
                              primary_email = pmail,
                              mozilla_ldap_primary_email = ldap_email\<rparr>))))))))"

section \<open>Classifier\<close>

text \<open>
  The classifier on alerts as values.  Each function returns its outcome (the exception
  raised, or the value returned, \<open>None\<close> for Python's \<open>None\<close>) paired with the alert it
  was given.  What the functions do to the objects of the alert in memory is the subject
  of the store model further down.
\<close>

type_synonym outcome = "error + AlertTriageRequest option"

text \<open>
  \<open>events[0]['documentsource'][k]\<close> and \<open>events[0]['documentsource']['details'][k]\<close>, the
  two chains of subscripts of the extractions.
\<close>

definition documentsource_field :: "json \<Rightarrow> string \<Rightarrow> error + json" where
  "documentsource_field events k =
     bindE (bindE (py_first events) (\<lambda>e. py_item e ''documentsource'')) (\<lambda>d. py_item d k)"

definition details_field :: "json \<Rightarrow> string \<Rightarrow> error + json" where
  "details_field events k =
     bindE (documentsource_field events ''details'') (\<lambda>d. py_item d k)"

text \<open>\<open>_make_sensitive_host_access\<close> (lines 316-351).\<close>

definition make_sensitive_host_access :: "env \<Rightarrow> json \<Rightarrow> json \<Rightarrow> outcome \<times> json" where
  "make_sensitive_host_access env a tkn =
     (let null = JDict [(''documentsource'',
                         JDict [(''details'', JDict [(''username'', JNull)]),
                                (''hostname'', JNull)])]
      in (bindE (py_get a ''_source'' (JDict [])) (\<lambda>source.
          bindE (py_get source ''events'' (JList [null])) (\<lambda>events.
          bindE (details_field events ''username'') (\<lambda>usr.
          bindE (documentsource_field events ''hostname'') (\<lambda>host.
          if usr = JNull \<or> usr = JStr '''' then Inr None
          else
            bindE (primary_username env PERSON_API_BASE tkn usr) (\<lambda>profile.
            case profile of
              None \<Rightarrow> Inr None
            | Some p \<Rightarrow>
                (let text = ''An SSH session to a potentially sensitive host ''
                            @ py_str (str_of env) host
                            @ '' was made by your user account.''
                 in bindE (py_item a ''_id'') (\<lambda>ident.
                    Inr (Some \<lparr>identifier = ident,
                               alert = SENSITIVE_HOST_SESSION,
                               summary = text,
                               user = primary_email p\<rparr>)))))))),
          a))"

text \<open>
  \<open>_make_duo_code_gen\<close> (lines 354-381).  Line 374 assigns the first string literal to
  \<open>summary\<close>; the literal on line 375 is a statement of its own and has no effect.
\<close>

definition make_duo_code_gen :: "env \<Rightarrow> json \<Rightarrow> json \<Rightarrow> outcome \<times> json" where
  "make_duo_code_gen env a tkn =
     (let null = JDict [(''documentsource'', JDict [(''details'', JDict [(''object'', JNull)])])]
      in (bindE (py_get a ''_source'' (JDict [])) (\<lambda>source.
          bindE (py_get source ''events'' (JList [null])) (\<lambda>events.
          bindE (details_field events ''object'') (\<lambda>email.
          if email = JNull \<or> email = JStr '''' then Inr None
          else
            (let text = ''DUO bypass codes have been generated for your account. ''
             in bindE (py_item a ''_id'') (\<lambda>ident.
                Inr (Some \<lparr>identifier = ident,
                           alert = DUO_BYPASS_CODES_GENERATED,
                           summary = text,
                           user = email\<rparr>)))))),
          a))"

text \<open>
  \<open>_make_duo_code_used\<close> (lines 384-412).  Line 404 assigns the first literal; lines 405 and
  406 are two more statements without effect.
\<close>

definition make_duo_code_used :: "env \<Rightarrow> json \<Rightarrow> json \<Rightarrow> outcome \<times> json" where
  "make_duo_code_used env a tkn =
     (let null = JDict [(''documentsource'', JDict [(''details'', JDict [(''object'', JNull)])])]
      in (bindE (py_get a ''_source'' (JDict [])) (\<lambda>source.
          bindE (py_get source ''events'' (JList [null])) (\<lambda>events.
          bindE (details_field events ''object'') (\<lambda>email.
          if email = JNull \<or> email = JStr '''' then Inr None
          else
            (let text = ''DUO bypass codes belonging to your account have been used to ''
             in bindE (py_item a ''_id'') (\<lambda>ident.
                Inr (Some \<lparr>identifier = ident,
                           alert = DUO_BYPASS_CODES_USED,
                           summary = text,
                           user = email\<rparr>)))))),
          a))"

text \<open>
  Modelled from the spec: the summary template of the ssh-access shape.  In the source the
  string literal of lines 440-441 is broken across the line break, which Python's parser
  does not accept, so the source does not give the text; the spec (section 4.2) gives it as
  "An SSH session was established to host {host} by your user account."
\<close>

definition ssh_access_summary :: "string \<Rightarrow> string" where
  "ssh_access_summary host =
     ''An SSH session was established to host '' @ host @ '' by your user account.''"

text \<open>
  \<open>_make_ssh_access_releng\<close> (lines 415-447).  The username is the last of the pieces of
  the summary split at single spaces, and is computed before the hostname is read.
\<close>

definition make_ssh_access_releng :: "env \<Rightarrow> json \<Rightarrow> json \<Rightarrow> outcome \<times> json" where
  "make_ssh_access_releng env a tkn =
     (let null = JDict [(''documentsource'', JDict [(''details'', JDict [(''hostname'', JNull)])])]
      in (bindE (py_get a ''_source'' (JDict [])) (\<lambda>source.
          bindE (py_get source ''events'' (JList [null])) (\<lambda>events.
          bindE (bindE (py_get source ''summary'' (JStr '''')) py_split_last) (\<lambda>usr.
          bindE (details_field events ''hostname'') (\<lambda>host.
          if usr = JStr '''' \<or> host = JNull \<or> host = JStr '''' then Inr None
          else
            bindE (primary_username env PERSON_API_BASE tkn usr) (\<lambda>profile.
            case profile of
              None \<Rightarrow> Inr None
            | Some p \<Rightarrow>
                (let text = ssh_access_summary (py_str (str_of env) host)
                 in bindE (py_item a ''_id'') (\<lambda>ident.
                    Inr (Some \<lparr>identifier = ident,
                               alert = SSH_ACCESS_SIGN_RELENG,
                               summary = text,
                               user = primary_email p\<rparr>)))))))),
          a))"

text \<open>Python's \<open>x and y\<close> on booleans: \<open>y\<close> is evaluated only when \<open>x\<close> is true.\<close>

definition py_and :: "error + bool \<Rightarrow> error + bool \<Rightarrow> error + bool" where
  "py_and x y = bindE x (\<lambda>b. if b then y else Inr False)"

text \<open>
  \<open>try_make_outbound\<close> (lines 180-214).  The four predicates are all computed, in the order
  written, before the first \<open>if\<close>; an exception in any of them ends the call.
\<close>

definition try_make_outbound :: "env \<Rightarrow> json \<Rightarrow> json \<Rightarrow> outcome \<times> json" where
  "try_make_outbound env message oauth_tkn =
     (case
        bindE (py_get message ''_source'' (JDict [])) (\<lambda>source.
        bindE (py_get source ''category'' JNull) (\<lambda>category.
        bindE (py_get source ''tags'' (JList [])) (\<lambda>tags.
        bindE (py_and (py_in ''session'' tags) (Inr (category = JStr ''session'')))
          (\<lambda>is_sensitive_host_access.
        bindE (py_and (py_in ''duosecurity'' tags)
                (py_and (Inr (category = JStr ''duo''))
                   (bindE (py_get source ''summary'' (JStr '''')) (py_in ''codes generated''))))
          (\<lambda>is_duo_codes_generated.
        bindE (py_and (py_in ''duo_bypass_codes_used'' tags) (Inr (category = JStr ''bypassused'')))
          (\<lambda>is_duo_bypass_codes_used.
        bindE (py_and (py_in ''ssh'' tags) (Inr (category = JStr ''access'')))
          (\<lambda>is_ssh_access_releng.
        Inr (is_sensitive_host_access, is_duo_codes_generated,
             is_duo_bypass_codes_used, is_ssh_access_releng))))))))
      of
        Inl e \<Rightarrow> (Inl e, message)
      | Inr (is_sensitive_host_access, is_duo_codes_generated,
             is_duo_bypass_codes_used, is_ssh_access_releng) \<Rightarrow>
          if is_sensitive_host_access then make_sensitive_host_access env message oauth_tkn
          else if is_duo_codes_generated then make_duo_code_gen env message oauth_tkn
          else if is_duo_bypass_codes_used then make_duo_code_used env message oauth_tkn
          else if is_ssh_access_releng then make_ssh_access_releng env message oauth_tkn
          else (Inr None, message))"

section \<open>Session controller\<close>

text \<open>
  The state of a \<open>message\<close> object after \<open>__init__\<close>.  \<open>test_flag\<close> is the attribute
  \<open>_test_flag\<close>, false while it has not been set.
\<close>

record session =
  config :: json
  person_api_session :: json
  last_authenticated :: datetime
  test_flag :: bool

text \<open>What a call of \<open>onMessage\<close> does to the world, in order.\<close>

datatype effect =
    Authenticated string AuthParams
  | Dispatched AlertTriageRequest json DispatchResult

text \<open>
  Binding the positional arguments of a call to the parameters \<open>(message, oauth_tkn)\<close> of
  \<open>try_make_outbound\<close> (lines 180-183): neither parameter has a default, so a call with any
  other number of arguments raises TypeError before the body runs.
\<close>

fun bind_try_make_outbound_args :: "json list \<Rightarrow> error + json \<times> json" where
  "bind_try_make_outbound_args [message, oauth_tkn] = Inr (message, oauth_tkn)"
| "bind_try_make_outbound_args _ = Inl TypeError"

text \<open>
  The block of lines 156-168: the refresh of the token.  The arguments of \<open>authenticate\<close>
  are evaluated before the call, so a key missing from the configuration raises before it.
  The new token is stored before it is tested.
\<close>

definition refresh ::
  "env \<Rightarrow> session \<Rightarrow> datetime \<Rightarrow> (error + unit) \<times> session \<times> effect list" where
  "refresh env self now2 =
     (case bindE (py_item (config self) ''person_api_client_id'') (\<lambda>cid.
           bindE (py_item (config self) ''person_api_client_secret'') (\<lambda>csecret.
           Inr \<lparr>client_id = cid, client_secret = csecret,
                audience = PERSON_API_AUDIENCE, scope = PERSON_API_SCOPE,
                grants = PERSON_API_GRANTS\<rparr>)) of
        Inl e \<Rightarrow> (Inl e, self, [])
      | Inr params \<Rightarrow>
          (let tkn = authenticate env OAUTH_URL params;
               self1 = self\<lparr>person_api_session := tkn\<rparr>
           in if tkn = JNull then (Inl AuthFailure, self1, [Authenticated OAUTH_URL params])
              else (Inr (), self1\<lparr>last_authenticated := now2\<rparr>,
                    [Authenticated OAUTH_URL params])))"

text \<open>
  Lines 149-177 of \<open>onMessage\<close>, as a function of the value bound to \<open>request\<close> on line 147.
  \<open>now1\<close> and \<open>now2\<close> are the readings of \<open>datetime.now()\<close> on lines 150 and 168.  The
  minutes since the last authentication are a Python float; the model computes them as a
  real number.
\<close>

definition onMessage_rest ::
  "env \<Rightarrow> session \<Rightarrow> json \<Rightarrow> AlertTriageRequest option \<Rightarrow> datetime \<Rightarrow> datetime
     \<Rightarrow> (error + json) \<times> session \<times> effect list" where
  "onMessage_rest env self message request now1 now2 =
     (let delta = now1 - last_authenticated self;
          mins_since_auth = (real_of_int delta / 1000000) / 60;
          have_request = (request \<noteq> None);
          should_refresh = (mins_since_auth > real_of_int TOKEN_VALIDITY_WINDOW_MINUTES)
      in case (if have_request \<and> should_refresh then refresh env self now2
               else (Inr (), self, [])) of
           (Inl e, self1, effs) \<Rightarrow> (Inl e, self1, effs)
         | (Inr u, self1, effs) \<Rightarrow>
             (case boto_client env of
                Inl e \<Rightarrow> (Inl e, self1, effs)
              | Inr invoke \<Rightarrow>
                  (case request of
                     None \<Rightarrow> (Inr message, self1, effs)
                   | Some req \<Rightarrow>
                       (let self2 = self1\<lparr>test_flag := True\<rparr>
                        in case py_item (config self2) ''aws_lambda_function'' of
                             Inl e \<Rightarrow> (Inl e, self2, effs)
                           | Inr fn_name \<Rightarrow>
                               (Inr message, self2,
                                effs @ [Dispatched req fn_name (dispatch invoke req fn_name)])))))"

text \<open>
  \<open>onMessage\<close> (lines 142-177).  Line 147 calls \<open>try_make_outbound\<close> with the one argument
  \<open>message\<close>.
\<close>

definition onMessage ::
  "env \<Rightarrow> session \<Rightarrow> json \<Rightarrow> datetime \<Rightarrow> datetime \<Rightarrow> (error + json) \<times> session \<times> effect list" where
  "onMessage env self message now1 now2 =
     (case bind_try_make_outbound_args [message] of
        Inl e \<Rightarrow> (Inl e, self, [])
      | Inr (m, tkn) \<Rightarrow>
          (case try_make_outbound env m tkn of
             (Inl e, m') \<Rightarrow> (Inl e, self, [])
           | (Inr request, m') \<Rightarrow> onMessage_rest env self m' request now1 now2))"

section \<open>The classifier on objects in a store\<close>

text \<open>
  Python holds a dict or a list as an object and passes references to it: the \<open>message\<close>
  given to \<open>try_make_outbound\<close>, the \<open>_source\<close> it reads from it and the event records are
  references into the same objects the caller holds.  Here a store is the list of the
  objects allocated so far, a reference is an index into it, and a value is \<open>None\<close>, a
  boolean, a number, a string or a reference.  A dict or list display (\<open>{}\<close>, \<open>[null]\<close>)
  allocates a new object at the end of the store.
\<close>

datatype pval = PNone | PBool bool | PNum int | PStr string | PRef nat

datatype obj = ODict "(string \<times> pval) list" | OList "pval list"

type_synonym store = "obj list"

text \<open>A computation on the store: it raises or returns, and leaves a store.\<close>

type_synonym 'a prog = "store \<Rightarrow> (error + 'a) \<times> store"

definition st_return :: "'a \<Rightarrow> 'a prog" where
  "st_return x = (\<lambda>s. (Inr x, s))"

definition st_lift :: "error + 'a \<Rightarrow> 'a prog" where
  "st_lift m = (\<lambda>s. (m, s))"

definition st_bind :: "'a prog \<Rightarrow> ('a \<Rightarrow> 'b prog) \<Rightarrow> 'b prog" where
  "st_bind m f = (\<lambda>s. case m s of (Inl e, s') \<Rightarrow> (Inl e, s') | (Inr x, s') \<Rightarrow> f x s')"

definition st_alloc :: "obj \<Rightarrow> pval prog" where
  "st_alloc ob = (\<lambda>s. (Inr (PRef (length s)), s @ [ob]))"

text \<open>The object a value refers to, if it is a reference to one.\<close>

definition lookup_obj :: "store \<Rightarrow> pval \<Rightarrow> obj option" where
  "lookup_obj s v =
     (case v of PRef r \<Rightarrow> (if r < length s then Some (s ! r) else None) | _ \<Rightarrow> None)"

text \<open>
  \<open>d.get(k, default)\<close>, \<open>d[k]\<close>, \<open>xs[0]\<close> and \<open>n in c\<close> as in the section on documents, reading
  the object in the store.
\<close>

definition st_get :: "pval \<Rightarrow> string \<Rightarrow> pval \<Rightarrow> pval prog" where
  "st_get v k dflt = (\<lambda>s.
     (case lookup_obj s v of
        Some (ODict kvs) \<Rightarrow> Inr (case map_of kvs k of None \<Rightarrow> dflt | Some x \<Rightarrow> x)
      | _ \<Rightarrow> Inl AttributeError, s))"

definition st_item :: "pval \<Rightarrow> string \<Rightarrow> pval prog" where
  "st_item v k = (\<lambda>s.
     (case lookup_obj s v of
        Some (ODict kvs) \<Rightarrow> (case map_of kvs k of None \<Rightarrow> Inl KeyError | Some x \<Rightarrow> Inr x)
      | _ \<Rightarrow> Inl TypeError, s))"

definition st_first :: "pval \<Rightarrow> pval prog" where
  "st_first v = (\<lambda>s.
     (case v of
        PStr t \<Rightarrow> (case t of [] \<Rightarrow> Inl IndexError | c # cs \<Rightarrow> Inr (PStr [c]))
      | _ \<Rightarrow>
          (case lookup_obj s v of
             Some (OList xs) \<Rightarrow> (case xs of [] \<Rightarrow> Inl IndexError | x # rest \<Rightarrow> Inr x)
           | Some (ODict kvs) \<Rightarrow> Inl KeyError
           | None \<Rightarrow> Inl TypeError), s))"

definition st_in :: "string \<Rightarrow> pval \<Rightarrow> bool prog" where
  "st_in n v = (\<lambda>s.
     (case v of
        PStr t \<Rightarrow> Inr (str_contains n t)
      | _ \<Rightarrow>
          (case lookup_obj s v of
             Some (OList xs) \<Rightarrow> Inr (PStr n \<in> set xs)
           | Some (ODict kvs) \<Rightarrow> Inr (n \<in> fst ` set kvs)
           | None \<Rightarrow> Inl TypeError), s))"

fun st_split_last :: "pval \<Rightarrow> pval prog" where
  "st_split_last (PStr t) = st_return (PStr (last (split_on CHR '' '' t)))"
| "st_split_last _ = st_lift (Inl AttributeError)"

definition st_and :: "bool prog \<Rightarrow> bool prog \<Rightarrow> bool prog" where
  "st_and x y = st_bind x (\<lambda>b. if b then y else st_return False)"

text \<open>
  The document a value stands for: what \<open>str.format\<close> and the construction of the request
  read of it.  The depth is bounded by the number of objects in the store.
\<close>

fun reify :: "nat \<Rightarrow> store \<Rightarrow> pval \<Rightarrow> json" where
  "reify n s PNone = JNull"
| "reify n s (PBool b) = JBool b"
| "reify n s (PNum i) = JNum i"
| "reify n s (PStr t) = JStr t"
| "reify 0 s (PRef r) = JNull"
| "reify (Suc n) s (PRef r) =
     (if r < length s then
        (case s ! r of
           ODict kvs \<Rightarrow> JDict (map (\<lambda>kv. (fst kv, reify n s (snd kv))) kvs)
         | OList xs \<Rightarrow> JList (map (reify n s) xs))
      else JNull)"

definition st_reify :: "pval \<Rightarrow> json prog" where
  "st_reify v = (\<lambda>s. (Inr (reify (length s) s v), s))"

definition st_documentsource_field :: "pval \<Rightarrow> string \<Rightarrow> pval prog" where
  "st_documentsource_field events k =
     st_bind (st_bind (st_first events) (\<lambda>e. st_item e ''documentsource'')) (\<lambda>d. st_item d k)"

definition st_details_field :: "pval \<Rightarrow> string \<Rightarrow> pval prog" where
  "st_details_field events k =
     st_bind (st_documentsource_field events ''details'') (\<lambda>d. st_item d k)"

text \<open>
  \<open>_make_sensitive_host_access\<close> (lines 316-351) on the store.  The display of \<open>null\<close>
  allocates its three dicts, innermost first; the defaults \<open>{}\<close> and \<open>[null]\<close> are
  allocated before the \<open>get\<close> they are passed to.
\<close>

definition st_make_sensitive_host_access :: "env \<Rightarrow> pval \<Rightarrow> json \<Rightarrow> AlertTriageRequest option prog" where
  "st_make_sensitive_host_access env a tkn =
     st_bind (st_alloc (ODict [(''username'', PNone)])) (\<lambda>details.
     st_bind (st_alloc (ODict [(''details'', details), (''hostname'', PNone)])) (\<lambda>documentsource.
     st_bind (st_alloc (ODict [(''documentsource'', documentsource)])) (\<lambda>null.
     st_bind (st_alloc (ODict [])) (\<lambda>empty.
     st_bind (st_get a ''_source'' empty) (\<lambda>source.
     st_bind (st_alloc (OList [null])) (\<lambda>single.
     st_bind (st_get source ''events'' single) (\<lambda>events.
     st_bind (st_details_field events ''username'') (\<lambda>usr.
     st_bind (st_documentsource_field events ''hostname'') (\<lambda>host.
     if usr = PNone \<or> usr = PStr '''' then st_return None
     else
       st_bind (st_reify usr) (\<lambda>uname.
       st_bind (st_lift (primary_username env PERSON_API_BASE tkn uname)) (\<lambda>profile.
       case profile of
         None \<Rightarrow> st_return None
       | Some p \<Rightarrow>
           st_bind (st_reify host) (\<lambda>hostname.
           st_bind (st_item a ''_id'') (\<lambda>ident.
           st_bind (st_reify ident) (\<lambda>ident_value.
           st_return (Some \<lparr>identifier = ident_value,
                            alert = SENSITIVE_HOST_SESSION,
                            summary = ''An SSH session to a potentially sensitive host ''
                                      @ py_str (str_of env) hostname
                                      @ '' was made by your user account.'',
                            user = primary_email p\<rparr>)))))))))))))))"

text \<open>\<open>_make_duo_code_gen\<close> (lines 354-381) on the store.\<close>

definition st_make_duo_code_gen :: "env \<Rightarrow> pval \<Rightarrow> json \<Rightarrow> AlertTriageRequest option prog" where
  "st_make_duo_code_gen env a tkn =
     st_bind (st_alloc (ODict [(''object'', PNone)])) (\<lambda>details.
     st_bind (st_alloc (ODict [(''details'', details)])) (\<lambda>documentsource.
     st_bind (st_alloc (ODict [(''documentsource'', documentsource)])) (\<lambda>null.
     st_bind (st_alloc (ODict [])) (\<lambda>empty.
     st_bind (st_get a ''_source'' empty) (\<lambda>source.
     st_bind (st_alloc (OList [null])) (\<lambda>single.
     st_bind (st_get source ''events'' single) (\<lambda>events.
     st_bind (st_details_field events ''object'') (\<lambda>email.
     if email = PNone \<or> email = PStr '''' then st_return None
     else
       st_bind (st_item a ''_id'') (\<lambda>ident.
       st_bind (st_reify ident) (\<lambda>ident_value.
       st_bind (st_reify email) (\<lambda>email_value.
       st_return (Some \<lparr>identifier = ident_value,
                        alert = DUO_BYPASS_CODES_GENERATED,
                        summary = ''DUO bypass codes have been generated for your account. '',
                        user = email_value\<rparr>))))))))))))"

text \<open>\<open>_make_duo_code_used\<close> (lines 384-412) on the store.\<close>

definition st_make_duo_code_used :: "env \<Rightarrow> pval \<Rightarrow> json \<Rightarrow> AlertTriageRequest option prog" where
  "st_make_duo_code_used env a tkn =
     st_bind (st_alloc (ODict [(''object'', PNone)])) (\<lambda>details.
     st_bind (st_alloc (ODict [(''details'', details)])) (\<lambda>documentsource.
     st_bind (st_alloc (ODict [(''documentsource'', documentsource)])) (\<lambda>null.
     st_bind (st_alloc (ODict [])) (\<lambda>empty.
     st_bind (st_get a ''_source'' empty) (\<lambda>source.
     st_bind (st_alloc (OList [null])) (\<lambda>single.
     st_bind (st_get source ''events'' single) (\<lambda>events.
     st_bind (st_details_field events ''object'') (\<lambda>email.
     if email = PNone \<or> email = PStr '''' then st_return None
     else
       st_bind (st_item a ''_id'') (\<lambda>ident.
       st_bind (st_reify ident) (\<lambda>ident_value.
       st_bind (st_reify email) (\<lambda>email_value.
       st_return (Some \<lparr>identifier = ident_value,
                        alert = DUO_BYPASS_CODES_USED,
                        summary = ''DUO bypass codes belonging to your account have been used to '',
                        user = email_value\<rparr>))))))))))))"

text \<open>\<open>_make_ssh_access_releng\<close> (lines 415-447) on the store.\<close>

definition st_make_ssh_access_releng :: "env \<Rightarrow> pval \<Rightarrow> json \<Rightarrow> AlertTriageRequest option prog" where
  "st_make_ssh_access_releng env a tkn =
     st_bind (st_alloc (ODict [(''hostname'', PNone)])) (\<lambda>details.
     st_bind (st_alloc (ODict [(''details'', details)])) (\<lambda>documentsource.
     st_bind (st_alloc (ODict [(''documentsource'', documentsource)])) (\<lambda>null.
     st_bind (st_alloc (ODict [])) (\<lambda>empty.
     st_bind (st_get a ''_source'' empty) (\<lambda>source.
     st_bind (st_alloc (OList [null])) (\<lambda>single.
     st_bind (st_get source ''events'' single) (\<lambda>events.
     st_bind (st_bind (st_get source ''summary'' (PStr '''')) st_split_last) (\<lambda>usr.
     st_bind (st_details_field events ''hostname'') (\<lambda>host.
     if usr = PStr '''' \<or> host = PNone \<or> host = PStr '''' then st_return None
     else
       st_bind (st_reify usr) (\<lambda>uname.
       st_bind (st_lift (primary_username env PERSON_API_BASE tkn uname)) (\<lambda>profile.
       case profile of
         None \<Rightarrow> st_return None
       | Some p \<Rightarrow>
           st_bind (st_reify host) (\<lambda>hostname.
           st_bind (st_item a ''_id'') (\<lambda>ident.
           st_bind (st_reify ident) (\<lambda>ident_value.
           st_return (Some \<lparr>identifier = ident_value,
                            alert = SSH_ACCESS_SIGN_RELENG,
                            summary = ssh_access_summary (py_str (str_of env) hostname),
                            user = primary_email p\<rparr>)))))))))))))))"

text \<open>
  \<open>try_make_outbound\<close> (lines 180-214) on the store: the defaults \<open>{}\<close> of line 188 and
  \<open>[]\<close> of line 190 are allocated, the four predicates are computed in order, and the
  first that holds calls its extraction function with the same reference.
\<close>

definition st_try_make_outbound :: "env \<Rightarrow> pval \<Rightarrow> json \<Rightarrow> AlertTriageRequest option prog" where
  "st_try_make_outbound env message oauth_tkn =
     st_bind (st_alloc (ODict [])) (\<lambda>empty.
     st_bind (st_get message ''_source'' empty) (\<lambda>source.
     st_bind (st_get source ''category'' PNone) (\<lambda>category.
     st_bind (st_alloc (OList [])) (\<lambda>no_tags.
     st_bind (st_get source ''tags'' no_tags) (\<lambda>tags.
     st_bind (st_and (st_in ''session'' tags) (st_return (category = PStr ''session'')))
       (\<lambda>is_sensitive_host_access.
     st_bind (st_and (st_in ''duosecurity'' tags)
               (st_and (st_return (category = PStr ''duo''))
                  (st_bind (st_get source ''summary'' (PStr '''')) (st_in ''codes generated''))))
       (\<lambda>is_duo_codes_generated.
     st_bind (st_and (st_in ''duo_bypass_codes_used'' tags)
               (st_return (category = PStr ''bypassused'')))
       (\<lambda>is_duo_bypass_codes_used.
     st_bind (st_and (st_in ''ssh'' tags) (st_return (category = PStr ''access'')))
       (\<lambda>is_ssh_access_releng.
     if is_sensitive_host_access then st_make_sensitive_host_access env message oauth_tkn
     else if is_duo_codes_generated then st_make_duo_code_gen env message oauth_tkn
     else if is_duo_bypass_codes_used then st_make_duo_code_used env message oauth_tkn
     else if is_ssh_access_releng then st_make_ssh_access_releng env message oauth_tkn
     else st_return None)))))))))"

text \<open>
  The classifier assigns to no subscript or attribute of an object and calls no method
  that changes one.  For comparison, this is the assignment \<open>d[k] = x\<close> to a dict: it
  replaces the object at the reference.
\<close>

definition st_setitem :: "pval \<Rightarrow> string \<Rightarrow> pval \<Rightarrow> unit prog" where
  "st_setitem v k x = (\<lambda>s.
     (case lookup_obj s v of
        Some (ODict kvs) \<Rightarrow>
          (case v of
             PRef r \<Rightarrow> (Inr (), s[r := ODict ((k, x) # filter (\<lambda>kv. fst kv \<noteq> k) kvs)])
           | _ \<Rightarrow> (Inl TypeError, s))
      | _ \<Rightarrow> (Inl TypeError, s)))"

text \<open>
  A computation extends the store when, from every store, it leaves that store with new
  objects appended: no object that existed is changed or removed.
\<close>

definition extends_store :: "'a prog \<Rightarrow> bool" where
  "extends_store p = (\<forall>s. \<exists>new. snd (p s) = s @ new)"

text \<open>
  A store is ordered when every object refers only to objects allocated before it, as the
  objects of a parsed JSON document and the displays of the classifier do; a value is
  closed in a store when it does not refer beyond it.  In an ordered store a closed value
  stands for a document, \<open>doc\<close>, whatever is allocated afterwards.
\<close>

fun closed_val :: "nat \<Rightarrow> pval \<Rightarrow> bool" where
  "closed_val n (PRef r) = (r < n)"
| "closed_val n _ = True"

fun closed_obj :: "nat \<Rightarrow> obj \<Rightarrow> bool" where
  "closed_obj n (ODict kvs) = list_all (\<lambda>kv. closed_val n (snd kv)) kvs"
| "closed_obj n (OList xs) = list_all (closed_val n) xs"

definition ordered :: "store \<Rightarrow> bool" where
  "ordered s = (\<forall>i < length s. closed_obj i (s ! i))"

definition doc :: "store \<Rightarrow> pval \<Rightarrow> json" where
  "doc s v = reify (length s) s v"

definition denotes :: "store \<Rightarrow> pval \<Rightarrow> json \<Rightarrow> bool" where
  "denotes s v j \<longleftrightarrow> closed_val (length s) v \<and> doc s v = j"

section \<open>Concrete inputs\<close>

text \<open>A request, three downstream targets and an environment without network.\<close>

definition ex_request :: AlertTriageRequest where
  "ex_request = \<lparr>identifier = JStr ''a1'', alert = DUO_BYPASS_CODES_USED,
                  summary = ''s'', user = JStr ''jdoe@example.com''\<rparr>"

definition ex_invoke_status :: "int \<Rightarrow> lambda_invoke" where
  "ex_invoke_status s fn_name payload = Inr [(''StatusCode'', s)]"

definition ex_invoke_no_status :: lambda_invoke where
  "ex_invoke_no_status fn_name payload = Inr []"

definition ex_invoke_raises :: lambda_invoke where
  "ex_invoke_raises fn_name payload = Inl (OtherError ''ClientError'')"

definition ex_str_of :: "json \<Rightarrow> string" where
  "ex_str_of v = ''<repr>''"

definition ex_urljoin :: "string \<Rightarrow> string \<Rightarrow> string" where
  "ex_urljoin base route = base @ route"

definition ex_strptime :: "string \<Rightarrow> datetime option" where
  "ex_strptime s =
     (if s = ''2020-01-01T00:00:00.000000Z'' then Some 1577836800000000 else None)"

definition ex_get_unreachable :: "string \<Rightarrow> (string \<times> string) list \<Rightarrow> error + (error + json)" where
  "ex_get_unreachable url hdrs = Inl RequestException"

definition ex_post_unreachable :: "string \<Rightarrow> json \<Rightarrow> error + (error + json)" where
  "ex_post_unreachable url payload = Inl RequestException"

definition ex_env :: env where
  "ex_env = \<lparr>str_of = ex_str_of, urljoin = ex_urljoin,
             requests_get = ex_get_unreachable, requests_post = ex_post_unreachable,
             strptime = ex_strptime, boto_client = Inr (ex_invoke_status 200)\<rparr>"

text \<open>Directory responses: a full profile whose first name has no value, and two partial ones.\<close>

definition ex_profile :: json where
  "ex_profile =
     JDict [(''created'', JDict [(''value'', JStr ''2020-01-01T00:00:00.000000Z'')]),
            (''identities'',
               JDict [(''mozilla_ldap_primary_email'', JDict [(''value'', JStr ''jdoe@ldap'')])]),
            (''first_name'', JDict []),
            (''last_name'', JDict [(''value'', JStr ''Doe'')]),
            (''alternative_name'', JDict [(''value'', JStr ''JD'')]),
            (''primary_email'', JDict [(''value'', JStr ''jdoe@example.com'')])]"

definition ex_profile_no_first_name :: json where
  "ex_profile_no_first_name =
     JDict [(''created'', JDict [(''value'', JStr ''2020-01-01T00:00:00.000000Z'')]),
            (''identities'',
               JDict [(''mozilla_ldap_primary_email'', JDict [(''value'', JStr ''jdoe@ldap'')])]),
            (''last_name'', JDict [(''value'', JStr ''Doe'')]),
            (''alternative_name'', JDict [(''value'', JStr ''JD'')]),
            (''primary_email'', JDict [(''value'', JStr ''jdoe@example.com'')])]"

definition ex_profile_no_identities :: json where
  "ex_profile_no_identities =
     JDict [(''created'', JDict [(''value'', JStr ''2020-01-01T00:00:00.000000Z'')]),
            (''first_name'', JDict [(''value'', JStr ''J'')]),
            (''last_name'', JDict [(''value'', JStr ''Doe'')]),
            (''alternative_name'', JDict [(''value'', JStr ''JD'')]),
            (''primary_email'', JDict [(''value'', JStr ''jdoe@example.com'')])]"

definition ex_get_body :: "json \<Rightarrow> string \<Rightarrow> (string \<times> string) list \<Rightarrow> error + (error + json)" where
  "ex_get_body body url hdrs = Inr (Inr body)"

definition ex_env_directory :: "json \<Rightarrow> env" where
  "ex_env_directory body = ex_env\<lparr>requests_get := ex_get_body body\<rparr>"

text \<open>Alerts, built from an event list and the fields of \<open>_source\<close>.\<close>

definition ex_event :: "string \<Rightarrow> json \<Rightarrow> json" where
  "ex_event k v = JDict [(''documentsource'', JDict [(''details'', JDict [(k, v)]),
                                                   (''hostname'', JStr ''corp-host'')])]"

definition ex_alert :: "string \<Rightarrow> string list \<Rightarrow> string \<Rightarrow> json list \<Rightarrow> json" where
  "ex_alert category tags text events =
     JDict [(''_id'', JStr ''a1''),
            (''_source'', JDict [(''category'', JStr category),
                                 (''tags'', JList (map JStr tags)),
                                 (''summary'', JStr text),
                                 (''events'', JList events)])]"

definition ex_alert_no_events :: "string \<Rightarrow> string list \<Rightarrow> string \<Rightarrow> json" where
  "ex_alert_no_events category tags text =
     JDict [(''_id'', JStr ''a1''),
            (''_source'', JDict [(''category'', JStr category),
                                 (''tags'', JList (map JStr tags)),
                                 (''summary'', JStr text)])]"

definition ex_session :: session where
  "ex_session = \<lparr>config = JDict [(''person_api_client_id'', JStr ''id''),
                                  (''person_api_client_secret'', JStr ''secret''),
                                  (''aws_lambda_function'', JStr ''fn'')],
                  person_api_session = JStr ''token'',
                  last_authenticated = 0,
                  test_flag = False\<rparr>"

text \<open>
  The codes-generated alert as objects: details, documentsource, the event, the list of
  events, the list of tags, \<open>_source\<close> and, at index 6, the message.
\<close>

definition ex_store :: store where
  "ex_store =
     [ODict [(''object'', PStr ''jdoe@example.com'')],
      ODict [(''details'', PRef 0), (''hostname'', PStr ''corp-host'')],
      ODict [(''documentsource'', PRef 1)],
      OList [PRef 2],
      OList [PStr ''duosecurity''],
      ODict [(''category'', PStr ''duo''), (''tags'', PRef 4),
             (''summary'', PStr ''bypass codes generated''), (''events'', PRef 3)],
      ODict [(''_id'', PStr ''a1''), (''_source'', PRef 5)]]"

section \<open>Helper facts\<close>

lemma bindE_Inr [simp]: "bindE (Inr x) f = f x"
  by (simp add: bindE_def)

lemma bindE_Inl [simp]: "bindE (Inl e) f = Inl e"
  by (simp add: bindE_def)

lemma py_and_simps [simp]:
  "py_and (Inr True) y = y"
  "py_and (Inr False) y = Inr False"
  "py_and (Inl e) y = Inl e"
  by (simp_all add: py_and_def)

text \<open>
  The predicate block of \<open>try_make_outbound\<close>, evaluated: with a list of tags and a string
  as summary no predicate raises, and the function is a cascade of four tests.
\<close>

lemma try_make_outbound_cascade:
  assumes "py_get message ''_source'' (JDict []) = Inr source"
    and "py_get source ''category'' JNull = Inr category"
    and "py_get source ''tags'' (JList []) = Inr (JList tags)"
    and "py_get source ''summary'' (JStr '''') = Inr (JStr text)"
  shows "try_make_outbound env message tkn =
    (if JStr ''session'' \<in> set tags \<and> category = JStr ''session''
       then make_sensitive_host_access env message tkn
     else if JStr ''duosecurity'' \<in> set tags \<and> category = JStr ''duo''
             \<and> str_contains ''codes generated'' text
       then make_duo_code_gen env message tkn
     else if JStr ''duo_bypass_codes_used'' \<in> set tags \<and> category = JStr ''bypassused''
       then make_duo_code_used env message tkn
     else if JStr ''ssh'' \<in> set tags \<and> category = JStr ''access''
       then make_ssh_access_releng env message tkn
     else (Inr None, message))"
proof -
  have sens: "py_and (py_in ''session'' (JList tags)) (Inr (category = JStr ''session''))
              = Inr (JStr ''session'' \<in> set tags \<and> category = JStr ''session'')"
    by (simp add: py_and_def)
  have gen: "py_and (py_in ''duosecurity'' (JList tags))
               (py_and (Inr (category = JStr ''duo''))
                  (bindE (py_get source ''summary'' (JStr '''')) (py_in ''codes generated'')))
             = Inr (JStr ''duosecurity'' \<in> set tags \<and> category = JStr ''duo''
                    \<and> str_contains ''codes generated'' text)"
    using assms(4) by (simp add: py_and_def)
  have used: "py_and (py_in ''duo_bypass_codes_used'' (JList tags))
                (Inr (category = JStr ''bypassused''))
              = Inr (JStr ''duo_bypass_codes_used'' \<in> set tags \<and> category = JStr ''bypassused'')"
    by (simp add: py_and_def)
  have ssh: "py_and (py_in ''ssh'' (JList tags)) (Inr (category = JStr ''access''))
             = Inr (JStr ''ssh'' \<in> set tags \<and> category = JStr ''access'')"
    by (simp add: py_and_def)
  show ?thesis
    unfolding try_make_outbound_def
    by (simp only: assms(1,2,3) bindE_Inr sens gen used ssh sum.case prod.case)
qed

section \<open>Classifier: priority of the shapes\<close>

text \<open>
  Claim C1.  On an alert whose \<open>_source\<close> carries the data model's types (tags a list,
  summary a string, each possibly absent), \<open>try_make_outbound\<close> tests the shapes in the order
  sensitive-host-session, duo-codes-generated, duo-bypass-codes-used, ssh-access-releng, by
  membership in the tags and equality of the category, and returns what the constructor of
  the first shape that holds returns; it returns \<open>None\<close> when none holds.  Whatever else an
  alert satisfies, a shape listed earlier wins.
\<close>

theorem try_make_outbound_priority:
  assumes "py_get message ''_source'' (JDict []) = Inr source"
    and "py_get source ''category'' JNull = Inr category"
    and "py_get source ''tags'' (JList []) = Inr (JList tags)"
    and "py_get source ''summary'' (JStr '''') = Inr (JStr text)"
  shows "try_make_outbound env message tkn =
    (if JStr ''session'' \<in> set tags \<and> category = JStr ''session''
       then make_sensitive_host_access env message tkn
     else if JStr ''duosecurity'' \<in> set tags \<and> category = JStr ''duo''
             \<and> str_contains ''codes generated'' text
       then make_duo_code_gen env message tkn
     else if JStr ''duo_bypass_codes_used'' \<in> set tags \<and> category = JStr ''bypassused''
       then make_duo_code_used env message tkn
     else if JStr ''ssh'' \<in> set tags \<and> category = JStr ''access''
       then make_ssh_access_releng env message tkn
     else (Inr None, message))"
  using assms by (rule try_make_outbound_cascade)

theorem try_make_outbound_priority_witness:
  "try_make_outbound ex_env
     (ex_alert ''duo'' [''session'', ''ssh'', ''duosecurity'', ''duo_bypass_codes_used'']
        ''bypass codes generated'' [])
     (JStr ''token'')
   = make_duo_code_gen ex_env
     (ex_alert ''duo'' [''session'', ''ssh'', ''duosecurity'', ''duo_bypass_codes_used'']
        ''bypass codes generated'' [])
     (JStr ''token'')"
  using try_make_outbound_priority
    [of "ex_alert ''duo'' [''session'', ''ssh'', ''duosecurity'', ''duo_bypass_codes_used'']
           ''bypass codes generated'' []"
        "JDict [(''category'', JStr ''duo''),
                (''tags'', JList (map JStr [''session'', ''ssh'', ''duosecurity'',
                                            ''duo_bypass_codes_used''])),
                (''summary'', JStr ''bypass codes generated''),
                (''events'', JList [])]"
        "JStr ''duo''"
        "map JStr [''session'', ''ssh'', ''duosecurity'', ''duo_bypass_codes_used'']"
        "''bypass codes generated''" ex_env "JStr ''token''"]
  by (simp add: ex_alert_def)

section \<open>Classifier: the alert is only read\<close>

text \<open>Each operation on the store reads it or appends to it, and sequencing keeps that.\<close>

lemma extends_return: "extends_store (st_return x)"
  by (simp add: extends_store_def st_return_def)

lemma extends_lift: "extends_store (st_lift m)"
  by (simp add: extends_store_def st_lift_def)

lemma extends_alloc: "extends_store (st_alloc ob)"
  by (simp add: extends_store_def st_alloc_def)

lemma extends_get: "extends_store (st_get v k dflt)"
  by (simp add: extends_store_def st_get_def)

lemma extends_item: "extends_store (st_item v k)"
  by (simp add: extends_store_def st_item_def)

lemma extends_first: "extends_store (st_first v)"
  by (simp add: extends_store_def st_first_def)

lemma extends_in: "extends_store (st_in n v)"
  by (simp add: extends_store_def st_in_def)

lemma extends_reify: "extends_store (st_reify v)"
  by (simp add: extends_store_def st_reify_def)

lemma extends_split_last: "extends_store (st_split_last v)"
  by (cases v) (simp_all add: extends_return extends_lift)

lemma extends_bind:
  assumes "extends_store m" and "\<And>x. extends_store (f x)"
  shows "extends_store (st_bind m f)"
  unfolding extends_store_def
proof
  fix s
  obtain new1 where m: "snd (m s) = s @ new1"
    using assms(1) by (auto simp add: extends_store_def)
  show "\<exists>new. snd (st_bind m f s) = s @ new"
  proof (cases "fst (m s)")
    case (Inl e)
    then have "st_bind m f s = (Inl e, s @ new1)"
      using m by (cases "m s") (simp add: st_bind_def)
    then show ?thesis by simp
  next
    case (Inr x)
    have "\<exists>new. snd (f x (s @ new1)) = (s @ new1) @ new"
      using assms(2) [of x] unfolding extends_store_def by blast
    then obtain new2 where f: "snd (f x (s @ new1)) = (s @ new1) @ new2"
      by blast
    have "st_bind m f s = f x (s @ new1)"
      using m Inr by (cases "m s") (simp add: st_bind_def)
    then show ?thesis using f by simp
  qed
qed

lemma extends_if:
  "extends_store p \<Longrightarrow> extends_store q \<Longrightarrow> extends_store (if b then p else q)"
  by simp

lemma extends_case_option:
  "extends_store p \<Longrightarrow> (\<And>x. extends_store (f x))
   \<Longrightarrow> extends_store (case v of None \<Rightarrow> p | Some x \<Rightarrow> f x)"
  by (cases v) simp_all

lemma extends_and: "extends_store x \<Longrightarrow> extends_store y \<Longrightarrow> extends_store (st_and x y)"
  unfolding st_and_def by (intro extends_bind extends_if extends_return)

lemma extends_documentsource_field: "extends_store (st_documentsource_field events k)"
  unfolding st_documentsource_field_def by (intro extends_bind extends_first extends_item)

lemma extends_details_field: "extends_store (st_details_field events k)"
  unfolding st_details_field_def
  by (intro extends_bind extends_documentsource_field extends_item)

lemmas extends_steps =
  extends_bind extends_if extends_case_option extends_and extends_return extends_lift
  extends_alloc extends_get extends_item extends_first extends_in extends_reify
  extends_split_last extends_documentsource_field extends_details_field

lemma extends_make_sensitive_host_access:
  "extends_store (st_make_sensitive_host_access env a tkn)"
  unfolding st_make_sensitive_host_access_def by (intro extends_steps)

lemma extends_make_duo_code_gen: "extends_store (st_make_duo_code_gen env a tkn)"
  unfolding st_make_duo_code_gen_def by (intro extends_steps)

lemma extends_make_duo_code_used: "extends_store (st_make_duo_code_used env a tkn)"
  unfolding st_make_duo_code_used_def by (intro extends_steps)

lemma extends_make_ssh_access_releng: "extends_store (st_make_ssh_access_releng env a tkn)"
  unfolding st_make_ssh_access_releng_def by (intro extends_steps)

lemma extends_try_make_outbound: "extends_store (st_try_make_outbound env message tkn)"
  unfolding st_try_make_outbound_def
  by (intro extends_steps extends_make_sensitive_host_access extends_make_duo_code_gen
      extends_make_duo_code_used extends_make_ssh_access_releng)

lemma extends_store_take: "extends_store p \<Longrightarrow> take (length s) (snd (p s)) = s"
proof -
  assume "extends_store p"
  then obtain new where "snd (p s) = s @ new"
    by (auto simp add: extends_store_def)
  then show ?thesis by simp
qed

text \<open>
  An assignment to a key of a stored dict is not such a computation, and the stored
  codes-generated alert is the alert of the examples.
\<close>

lemma setitem_changes_store:
  "\<not> extends_store (st_setitem (PRef 6) ''_id'' PNone)"
proof
  assume "extends_store (st_setitem (PRef 6) ''_id'' PNone)"
  then have "take (length ex_store) (snd (st_setitem (PRef 6) ''_id'' PNone ex_store)) = ex_store"
    by (rule extends_store_take)
  then show False
    by (simp add: st_setitem_def lookup_obj_def ex_store_def)
qed

lemma ex_store_is_ex_alert:
  "reify (length ex_store) ex_store (PRef 6)
   = ex_alert ''duo'' [''duosecurity''] ''bypass codes generated''
       [ex_event ''object'' (JStr ''jdoe@example.com'')]"
  by (simp add: ex_store_def ex_alert_def ex_event_def eval_nat_numeral)

text \<open>
  Claim C9.  From every store, \<open>try_make_outbound\<close> and each of the four extraction
  functions leave every object that existed before the call as it was, whether they
  return a request, return \<open>None\<close> or raise: the dicts and lists of the alert, at every
  nesting level, keep their keys and values, and what the functions allocate comes after
  them in the store.  (That the reference then stands for the same document, and that the
  outcome is that of the classifier on this document, is shown in the last section.)
\<close>

theorem classification_leaves_objects_unchanged:
  "take (length s) (snd (st_try_make_outbound env message tkn s)) = s
   \<and> take (length s) (snd (st_make_sensitive_host_access env message tkn s)) = s
   \<and> take (length s) (snd (st_make_duo_code_gen env message tkn s)) = s
   \<and> take (length s) (snd (st_make_duo_code_used env message tkn s)) = s
   \<and> take (length s) (snd (st_make_ssh_access_releng env message tkn s)) = s"
  by (simp add: extends_store_take extends_try_make_outbound
      extends_make_sensitive_host_access extends_make_duo_code_gen
      extends_make_duo_code_used extends_make_ssh_access_releng)

text \<open>
  On the stored codes-generated alert the call returns the request and appends the seven
  objects it allocated (two defaults of \<open>try_make_outbound\<close>, the default record, \<open>{}\<close>
  and \<open>[null]\<close> of the extraction) after the seven of the alert.
\<close>

theorem classification_leaves_objects_unchanged_witness:
  "fst (st_try_make_outbound ex_env (PRef 6) (JStr ''token'') ex_store)
     = Inr (Some \<lparr>identifier = JStr ''a1'', alert = DUO_BYPASS_CODES_GENERATED,
                  summary = ''DUO bypass codes have been generated for your account. '',
                  user = JStr ''jdoe@example.com''\<rparr>)
   \<and> length (snd (st_try_make_outbound ex_env (PRef 6) (JStr ''token'') ex_store)) = 14
   \<and> take 7 (snd (st_try_make_outbound ex_env (PRef 6) (JStr ''token'') ex_store)) = ex_store"
proof -
  have run: "st_try_make_outbound ex_env (PRef 6) (JStr ''token'') ex_store
     = (Inr (Some \<lparr>identifier = JStr ''a1'', alert = DUO_BYPASS_CODES_GENERATED,
                  summary = ''DUO bypass codes have been generated for your account. '',
                  user = JStr ''jdoe@example.com''\<rparr>),
        ex_store @ [ODict [], OList [], ODict [(''object'', PNone)],
                    ODict [(''details'', PRef 9)], ODict [(''documentsource'', PRef 10)],
                    ODict [], OList [PRef 11]])"
    by (simp add: st_try_make_outbound_def st_make_duo_code_gen_def st_bind_def st_alloc_def
        st_get_def st_item_def st_first_def st_in_def st_and_def st_return_def st_reify_def
        st_details_field_def st_documentsource_field_def lookup_obj_def ex_store_def
        nth_append)
  have len: "length ex_store = 7"
    by (simp add: ex_store_def)
  show ?thesis
    using classification_leaves_objects_unchanged
      [of ex_store ex_env "PRef 6" "JStr ''token''"]
    by (simp add: run len)
qed

section \<open>Classifier: the summaries of the two Duo shapes\<close>

text \<open>
  Claim C8 (the code falls short of it).  On a well-formed alert of the codes-generated
  shape and on one of the codes-used shape, the summary of the request is the first string
  literal only: the sentence about securing the credentials, and the rest of the warning
  about used codes, are not part of it.
\<close>

theorem duo_summaries_are_truncated:
  "fst (try_make_outbound env
          (ex_alert ''duo'' [''duosecurity''] ''bypass codes generated''
             [ex_event ''object'' (JStr ''jdoe@example.com'')]) tkn)
     = Inr (Some \<lparr>identifier = JStr ''a1'', alert = DUO_BYPASS_CODES_GENERATED,
                  summary = ''DUO bypass codes have been generated for your account. '',
                  user = JStr ''jdoe@example.com''\<rparr>)
   \<and> fst (try_make_outbound env
          (ex_alert ''bypassused'' [''duo_bypass_codes_used''] ''bypass code used''
             [ex_event ''object'' (JStr ''jdoe@example.com'')]) tkn)
     = Inr (Some \<lparr>identifier = JStr ''a1'', alert = DUO_BYPASS_CODES_USED,
                  summary = ''DUO bypass codes belonging to your account have been used to '',
                  user = JStr ''jdoe@example.com''\<rparr>)"
  by (simp add: try_make_outbound_def make_duo_code_gen_def make_duo_code_used_def
      ex_alert_def ex_event_def details_field_def documentsource_field_def)

section \<open>Dispatcher: the ternary result\<close>

text \<open>
  Claim C4, as stated, fails: a status below 200 is a success.
\<close>

theorem dispatch_status_100_counterexample:
  "dispatch (ex_invoke_status 100) ex_request (JStr ''fn'') = SUCCESS
   \<and> \<not> (200 \<le> (100::int) \<and> (100::int) < 300)"
  by (simp add: dispatch_def ex_invoke_status_def)

text \<open>
  Claim C4, amended.  The result is success exactly when a status below 300 was returned,
  failure exactly when the invocation raised, returned no status, or returned a status of
  400 or more, and indeterminate exactly when the status is at least 300 and below 400.
\<close>

theorem dispatch_result_by_status:
  "(dispatch invoke req fn_name = SUCCESS \<longleftrightarrow>
      (\<exists>resp s. invoke fn_name (payload_dict req) = Inr resp
                \<and> map_of resp ''StatusCode'' = Some s \<and> s < 300))
   \<and> (dispatch invoke req fn_name = FAILURE \<longleftrightarrow>
      ((\<exists>e. invoke fn_name (payload_dict req) = Inl e)
       \<or> (\<exists>resp. invoke fn_name (payload_dict req) = Inr resp
                  \<and> map_of resp ''StatusCode'' = None)
       \<or> (\<exists>resp s. invoke fn_name (payload_dict req) = Inr resp
                  \<and> map_of resp ''StatusCode'' = Some s \<and> 400 \<le> s)))
   \<and> (dispatch invoke req fn_name = INDETERMINATE \<longleftrightarrow>
      (\<exists>resp s. invoke fn_name (payload_dict req) = Inr resp
                \<and> map_of resp ''StatusCode'' = Some s \<and> 300 \<le> s \<and> s < 400))"
  by (auto simp: dispatch_def Let_def split: sum.splits option.splits)

theorem dispatch_result_by_status_witness:
  "dispatch (ex_invoke_status 204) ex_request (JStr ''fn'') = SUCCESS
   \<and> dispatch (ex_invoke_status 404) ex_request (JStr ''fn'') = FAILURE
   \<and> dispatch (ex_invoke_status 301) ex_request (JStr ''fn'') = INDETERMINATE
   \<and> dispatch ex_invoke_raises ex_request (JStr ''fn'') = FAILURE"
  using dispatch_result_by_status [of "ex_invoke_status 204" ex_request "JStr ''fn''"]
    dispatch_result_by_status [of "ex_invoke_status 404" ex_request "JStr ''fn''"]
    dispatch_result_by_status [of "ex_invoke_status 301" ex_request "JStr ''fn''"]
    dispatch_result_by_status [of ex_invoke_raises ex_request "JStr ''fn''"]
  by (simp add: ex_invoke_status_def ex_invoke_raises_def)

text \<open>
  Claim C10.  When the invocation returns a response without \<open>StatusCode\<close>, the status is
  taken to be 400 and the result is failure.
\<close>

theorem dispatch_missing_status_code:
  "invoke fn_name (payload_dict req) = Inr resp \<Longrightarrow> map_of resp ''StatusCode'' = None
   \<Longrightarrow> dispatch invoke req fn_name = FAILURE"
  by (simp add: dispatch_def)

theorem dispatch_missing_status_code_witness:
  "ex_invoke_no_status (JStr ''fn'') (payload_dict ex_request) = Inr []
   \<and> map_of ([] :: (string \<times> int) list) ''StatusCode'' = None
   \<and> dispatch ex_invoke_no_status ex_request (JStr ''fn'') = FAILURE"
  using dispatch_missing_status_code [of ex_invoke_no_status "JStr ''fn''" ex_request "[]"]
  by (simp add: ex_invoke_no_status_def)

section \<open>Session controller: the call of the classifier\<close>

text \<open>
  Claim C3 (the code falls short of it).  \<open>onMessage\<close> passes no token to
  \<open>try_make_outbound\<close>, so the call raises TypeError on every message: no classification
  takes place, nothing is dispatched and the message is not returned.
\<close>

theorem onMessage_raises_TypeError:
  "onMessage env self message now1 now2 = (Inl TypeError, self, [])"
  by (simp add: onMessage_def)

section \<open>Classifier: what the extractions do with the events\<close>

lemma py_item_imp_get: "py_item d k = Inr v \<Longrightarrow> py_get d k dflt = Inr v"
  by (cases d) (auto split: option.splits)

text \<open>Without the \<open>events\<close> key every extraction reads its own default record and gives up.\<close>

lemma make_sensitive_host_access_no_events:
  "py_get a ''_source'' (JDict []) = Inr (JDict skvs) \<Longrightarrow> map_of skvs ''events'' = None
   \<Longrightarrow> make_sensitive_host_access env a tkn = (Inr None, a)"
  by (simp add: make_sensitive_host_access_def details_field_def documentsource_field_def)

lemma make_duo_code_gen_no_events:
  "py_get a ''_source'' (JDict []) = Inr (JDict skvs) \<Longrightarrow> map_of skvs ''events'' = None
   \<Longrightarrow> make_duo_code_gen env a tkn = (Inr None, a)"
  by (simp add: make_duo_code_gen_def details_field_def documentsource_field_def)

lemma make_duo_code_used_no_events:
  "py_get a ''_source'' (JDict []) = Inr (JDict skvs) \<Longrightarrow> map_of skvs ''events'' = None
   \<Longrightarrow> make_duo_code_used env a tkn = (Inr None, a)"
  by (simp add: make_duo_code_used_def details_field_def documentsource_field_def)

lemma make_ssh_access_releng_no_events:
  "py_get a ''_source'' (JDict []) = Inr (JDict skvs) \<Longrightarrow> map_of skvs ''events'' = None
   \<Longrightarrow> py_get (JDict skvs) ''summary'' (JStr '''') = Inr (JStr text)
   \<Longrightarrow> make_ssh_access_releng env a tkn = (Inr None, a)"
  by (simp add: make_ssh_access_releng_def details_field_def documentsource_field_def)

text \<open>A first event without \<open>documentsource\<close> makes the first subscript chain raise.\<close>

lemma details_field_no_documentsource:
  "map_of ekvs ''documentsource'' = None
   \<Longrightarrow> details_field (JList (JDict ekvs # rest)) k = Inl KeyError"
  by (simp add: details_field_def documentsource_field_def)

lemma make_sensitive_host_access_no_documentsource:
  "py_get a ''_source'' (JDict []) = Inr (JDict skvs)
   \<Longrightarrow> map_of skvs ''events'' = Some (JList (JDict ekvs # rest))
   \<Longrightarrow> map_of ekvs ''documentsource'' = None
   \<Longrightarrow> fst (make_sensitive_host_access env a tkn) = Inl KeyError"
  by (simp add: make_sensitive_host_access_def details_field_no_documentsource)

lemma make_duo_code_gen_no_documentsource:
  "py_get a ''_source'' (JDict []) = Inr (JDict skvs)
   \<Longrightarrow> map_of skvs ''events'' = Some (JList (JDict ekvs # rest))
   \<Longrightarrow> map_of ekvs ''documentsource'' = None
   \<Longrightarrow> fst (make_duo_code_gen env a tkn) = Inl KeyError"
  by (simp add: make_duo_code_gen_def details_field_no_documentsource)

lemma make_duo_code_used_no_documentsource:
  "py_get a ''_source'' (JDict []) = Inr (JDict skvs)
   \<Longrightarrow> map_of skvs ''events'' = Some (JList (JDict ekvs # rest))
   \<Longrightarrow> map_of ekvs ''documentsource'' = None
   \<Longrightarrow> fst (make_duo_code_used env a tkn) = Inl KeyError"
  by (simp add: make_duo_code_used_def details_field_no_documentsource)

lemma make_ssh_access_releng_no_documentsource:
  "py_get a ''_source'' (JDict []) = Inr (JDict skvs)
   \<Longrightarrow> map_of skvs ''events'' = Some (JList (JDict ekvs # rest))
   \<Longrightarrow> map_of ekvs ''documentsource'' = None
   \<Longrightarrow> py_get (JDict skvs) ''summary'' (JStr '''') = Inr (JStr text)
   \<Longrightarrow> fst (make_ssh_access_releng env a tkn) = Inl KeyError"
  by (simp add: make_ssh_access_releng_def details_field_no_documentsource)

text \<open>
  Claim C2, as stated, fails: on an alert of the sensitive-host-session shape an empty
  \<open>events\<close> list is read at index 0 and raises IndexError, and an event without
  \<open>documentsource\<close> raises KeyError.
\<close>

theorem classification_raises_counterexample:
  "fst (try_make_outbound ex_env (ex_alert ''session'' [''session''] ''login'' [])
          (JStr ''token'')) = Inl IndexError
   \<and> fst (try_make_outbound ex_env (ex_alert ''session'' [''session''] ''login'' [JDict []])
          (JStr ''token'')) = Inl KeyError"
  by (simp add: try_make_outbound_def make_sensitive_host_access_def ex_alert_def
      details_field_def documentsource_field_def)

text \<open>
  Claim C2, amended.  On an alert with a list of tags and a string as summary (each
  possibly absent): when \<open>_source\<close> has no \<open>events\<close> key, the extraction reads the shape's
  all-null default record and classification returns \<open>None\<close> without raising; when the
  alert matches one of the four shapes and its first event is a record without
  \<open>documentsource\<close>, classification raises KeyError.
\<close>

theorem classification_on_absent_events_and_missing_field:
  assumes "py_get a ''_source'' (JDict []) = Inr (JDict skvs)"
    and "py_get (JDict skvs) ''category'' JNull = Inr category"
    and "py_get (JDict skvs) ''tags'' (JList []) = Inr (JList tags)"
    and "py_get (JDict skvs) ''summary'' (JStr '''') = Inr (JStr text)"
  shows "(map_of skvs ''events'' = None \<longrightarrow> try_make_outbound env a tkn = (Inr None, a))
    \<and> (map_of skvs ''events'' = Some (JList (JDict ekvs # rest))
        \<and> map_of ekvs ''documentsource'' = None
        \<and> (JStr ''session'' \<in> set tags \<and> category = JStr ''session''
           \<or> JStr ''duosecurity'' \<in> set tags \<and> category = JStr ''duo''
               \<and> str_contains ''codes generated'' text
           \<or> JStr ''duo_bypass_codes_used'' \<in> set tags \<and> category = JStr ''bypassused''
           \<or> JStr ''ssh'' \<in> set tags \<and> category = JStr ''access'')
        \<longrightarrow> fst (try_make_outbound env a tkn) = Inl KeyError)"
proof (intro conjI impI)
  assume "map_of skvs ''events'' = None"
  then show "try_make_outbound env a tkn = (Inr None, a)"
    using assms
    by (simp add: try_make_outbound_cascade [OF assms]
        make_sensitive_host_access_no_events make_duo_code_gen_no_events
        make_duo_code_used_no_events make_ssh_access_releng_no_events)
next
  assume h: "map_of skvs ''events'' = Some (JList (JDict ekvs # rest))
        \<and> map_of ekvs ''documentsource'' = None
        \<and> (JStr ''session'' \<in> set tags \<and> category = JStr ''session''
           \<or> JStr ''duosecurity'' \<in> set tags \<and> category = JStr ''duo''
               \<and> str_contains ''codes generated'' text
           \<or> JStr ''duo_bypass_codes_used'' \<in> set tags \<and> category = JStr ''bypassused''
           \<or> JStr ''ssh'' \<in> set tags \<and> category = JStr ''access'')"
  then have ev: "map_of skvs ''events'' = Some (JList (JDict ekvs # rest))"
    and ds: "map_of ekvs ''documentsource'' = None"
    by simp_all
  note k = make_sensitive_host_access_no_documentsource [OF assms(1) ev ds]
    make_duo_code_gen_no_documentsource [OF assms(1) ev ds]
    make_duo_code_used_no_documentsource [OF assms(1) ev ds]
    make_ssh_access_releng_no_documentsource [OF assms(1) ev ds assms(4)]
  from h show "fst (try_make_outbound env a tkn) = Inl KeyError"
    by (auto simp add: try_make_outbound_cascade [OF assms] k)
qed

theorem classification_on_absent_events_and_missing_field_witness:
  "try_make_outbound ex_env (ex_alert_no_events ''access'' [''ssh''] ''login by jdoe'')
     (JStr ''token'')
   = (Inr None, ex_alert_no_events ''access'' [''ssh''] ''login by jdoe'')
   \<and> fst (try_make_outbound ex_env
            (ex_alert ''duo'' [''duosecurity''] ''codes generated'' [JDict []])
            (JStr ''token'')) = Inl KeyError"
  using classification_on_absent_events_and_missing_field
    [of "ex_alert_no_events ''access'' [''ssh''] ''login by jdoe''"
        "[(''category'', JStr ''access''), (''tags'', JList (map JStr [''ssh''])),
          (''summary'', JStr ''login by jdoe'')]"
        "JStr ''access''" "map JStr [''ssh'']" "''login by jdoe''" ex_env "JStr ''token''"]
    classification_on_absent_events_and_missing_field
    [of "ex_alert ''duo'' [''duosecurity''] ''codes generated'' [JDict []]"
        "[(''category'', JStr ''duo''), (''tags'', JList (map JStr [''duosecurity''])),
          (''summary'', JStr ''codes generated''), (''events'', JList [JDict []])]"
        "JStr ''duo''" "map JStr [''duosecurity'']" "''codes generated''"
        ex_env "JStr ''token''" "[]" "[]"]
  by (simp add: ex_alert_def ex_alert_no_events_def)

section \<open>Classifier: a failed directory lookup\<close>

lemma try_make_outbound_session:
  assumes "py_get a ''_source'' (JDict []) = Inr source"
    and "py_get source ''category'' JNull = Inr (JStr ''session'')"
    and "py_get source ''tags'' (JList []) = Inr (JList tags)"
    and "JStr ''session'' \<in> set tags"
  shows "try_make_outbound env a tkn = make_sensitive_host_access env a tkn"
  unfolding try_make_outbound_def using assms by (simp add: py_and_def)

lemma try_make_outbound_access:
  assumes "py_get a ''_source'' (JDict []) = Inr source"
    and "py_get source ''category'' JNull = Inr (JStr ''access'')"
    and "py_get source ''tags'' (JList []) = Inr (JList tags)"
    and "JStr ''ssh'' \<in> set tags"
  shows "try_make_outbound env a tkn = make_ssh_access_releng env a tkn"
  unfolding try_make_outbound_def using assms by (simp add: py_and_def)

text \<open>
  Claim C6.  On an alert of the sensitive-host-session shape whose first event carries a
  username (neither null nor empty) and a hostname, and on an alert of the
  ssh-access-releng shape whose summary ends in a non-empty token and whose first event
  carries a hostname (neither null nor empty): when the directory lookup of the username
  returns \<open>None\<close>, \<open>try_make_outbound\<close> returns \<open>None\<close>.
\<close>

theorem lookup_none_gives_no_request:
  assumes "py_get a ''_source'' (JDict []) = Inr source"
    and "py_get source ''tags'' (JList []) = Inr (JList tags)"
    and "py_item source ''events'' = Inr events"
  shows "(py_get source ''category'' JNull = Inr (JStr ''session'')
          \<and> JStr ''session'' \<in> set tags
          \<and> details_field events ''username'' = Inr usr
          \<and> documentsource_field events ''hostname'' = Inr host
          \<and> usr \<noteq> JNull \<and> usr \<noteq> JStr ''''
          \<and> primary_username env PERSON_API_BASE tkn usr = Inr None
          \<longrightarrow> try_make_outbound env a tkn = (Inr None, a))
    \<and> (py_get source ''category'' JNull = Inr (JStr ''access'')
          \<and> JStr ''ssh'' \<in> set tags
          \<and> py_get source ''summary'' (JStr '''') = Inr (JStr text)
          \<and> last (split_on CHR '' '' text) \<noteq> ''''
          \<and> details_field events ''hostname'' = Inr host
          \<and> host \<noteq> JNull \<and> host \<noteq> JStr ''''
          \<and> primary_username env PERSON_API_BASE tkn (JStr (last (split_on CHR '' '' text)))
              = Inr None
          \<longrightarrow> try_make_outbound env a tkn = (Inr None, a))"
proof (intro conjI impI)
  assume h: "py_get source ''category'' JNull = Inr (JStr ''session'')
          \<and> JStr ''session'' \<in> set tags
          \<and> details_field events ''username'' = Inr usr
          \<and> documentsource_field events ''hostname'' = Inr host
          \<and> usr \<noteq> JNull \<and> usr \<noteq> JStr ''''
          \<and> primary_username env PERSON_API_BASE tkn usr = Inr None"
  then have "try_make_outbound env a tkn = make_sensitive_host_access env a tkn"
    using assms by (simp add: try_make_outbound_session)
  moreover have "make_sensitive_host_access env a tkn = (Inr None, a)"
    using h assms(1) py_item_imp_get [OF assms(3)]
    by (simp add: make_sensitive_host_access_def)
  ultimately show "try_make_outbound env a tkn = (Inr None, a)" by simp
next
  assume h: "py_get source ''category'' JNull = Inr (JStr ''access'')
          \<and> JStr ''ssh'' \<in> set tags
          \<and> py_get source ''summary'' (JStr '''') = Inr (JStr text)
          \<and> last (split_on CHR '' '' text) \<noteq> ''''
          \<and> details_field events ''hostname'' = Inr host
          \<and> host \<noteq> JNull \<and> host \<noteq> JStr ''''
          \<and> primary_username env PERSON_API_BASE tkn (JStr (last (split_on CHR '' '' text)))
              = Inr None"
  then have "try_make_outbound env a tkn = make_ssh_access_releng env a tkn"
    using assms by (simp add: try_make_outbound_access)
  moreover have "make_ssh_access_releng env a tkn = (Inr None, a)"
    using h assms(1) py_item_imp_get [OF assms(3)]
    by (simp add: make_ssh_access_releng_def)
  ultimately show "try_make_outbound env a tkn = (Inr None, a)" by simp
qed

theorem lookup_none_gives_no_request_witness:
  "try_make_outbound ex_env
     (ex_alert ''session'' [''session''] ''login'' [ex_event ''username'' (JStr ''jdoe'')])
     (JStr ''token'')
   = (Inr None,
      ex_alert ''session'' [''session''] ''login'' [ex_event ''username'' (JStr ''jdoe'')])
   \<and> try_make_outbound ex_env
     (ex_alert ''access'' [''ssh''] ''login by jdoe'' [ex_event ''hostname'' (JStr ''h1'')])
     (JStr ''token'')
   = (Inr None,
      ex_alert ''access'' [''ssh''] ''login by jdoe'' [ex_event ''hostname'' (JStr ''h1'')])"
  using lookup_none_gives_no_request
    [of "ex_alert ''session'' [''session''] ''login'' [ex_event ''username'' (JStr ''jdoe'')]"
        "JDict [(''category'', JStr ''session''), (''tags'', JList (map JStr [''session''])),
                (''summary'', JStr ''login''),
                (''events'', JList [ex_event ''username'' (JStr ''jdoe'')])]"
        "map JStr [''session'']"
        "JList [ex_event ''username'' (JStr ''jdoe'')]"
        "JStr ''jdoe''" "JStr ''corp-host''" ex_env "JStr ''token''" "''login''"]
    lookup_none_gives_no_request
    [of "ex_alert ''access'' [''ssh''] ''login by jdoe'' [ex_event ''hostname'' (JStr ''h1'')]"
        "JDict [(''category'', JStr ''access''), (''tags'', JList (map JStr [''ssh''])),
                (''summary'', JStr ''login by jdoe''),
                (''events'', JList [ex_event ''hostname'' (JStr ''h1'')])]"
        "map JStr [''ssh'']"
        "JList [ex_event ''hostname'' (JStr ''h1'')]"
        "JStr ''x''" "JStr ''h1''" ex_env "JStr ''token''" "''login by jdoe''"]
  by (simp add: ex_alert_def ex_event_def ex_env_def ex_get_unreachable_def
      primary_username_def details_field_def documentsource_field_def)

section \<open>Directory client: the lookup of a profile\<close>

lemma value_or_na_wrapper:
  "py_item data k = Inr (JDict w)
   \<Longrightarrow> value_or_na data k = Inr (case map_of w ''value'' of None \<Rightarrow> JStr ''N/A'' | Some v \<Rightarrow> v)"
  by (simp add: value_or_na_def)

text \<open>
  Claim C5, as stated, fails: a response with a valid timestamp and LDAP identity but
  without \<open>first_name\<close> raises KeyError instead of giving a profile with \<open>"N/A"\<close>, and
  a response without \<open>identities\<close> raises KeyError instead of giving \<open>None\<close>.
\<close>

theorem primary_username_raises_counterexample:
  "primary_username (ex_env_directory ex_profile_no_first_name) PERSON_API_BASE
     (JStr ''token'') (JStr ''jdoe'') = Inl KeyError
   \<and> primary_username (ex_env_directory ex_profile_no_identities) PERSON_API_BASE
     (JStr ''token'') (JStr ''jdoe'') = Inl KeyError"
  by (simp add: primary_username_def ex_env_directory_def ex_env_def ex_get_body_def
      ex_profile_no_first_name_def ex_profile_no_identities_def ex_strptime_def
      created_value_def ldap_identity_def value_or_na_def)

text \<open>
  Claim C5, amended.  \<open>primary_username\<close> returns \<open>None\<close> when the GET raises
  RequestException.  On a response whose \<open>created\<close> value is a string (the empty string
  when \<open>created\<close> or its value is missing) and which carries the records
  \<open>identities.mozilla_ldap_primary_email\<close>, \<open>first_name\<close>, \<open>last_name\<close>,
  \<open>alternative_name\<close> and \<open>primary_email\<close>, it returns \<open>None\<close> exactly when the string does
  not parse as a timestamp or the LDAP identity has no value or a null one; in every other
  case it returns a profile in which each of the four remaining fields is the record's
  value, or \<open>"N/A"\<close> when the record has none.
\<close>

theorem primary_username_result:
  "(requests_get env (full_url env base uname) (headers env tkn) = Inl RequestException
      \<longrightarrow> primary_username env base tkn uname = Inr None)
   \<and> (requests_get env (full_url env base uname) (headers env tkn) = Inr (Inr data)
       \<and> created_value data = Inr (JStr cs)
       \<and> ldap_identity data = Inr (JDict ldap)
       \<and> py_item data ''first_name'' = Inr (JDict fw)
       \<and> py_item data ''last_name'' = Inr (JDict lw)
       \<and> py_item data ''alternative_name'' = Inr (JDict aw)
       \<and> py_item data ''primary_email'' = Inr (JDict pw)
      \<longrightarrow> (primary_username env base tkn uname = Inr None
             \<longleftrightarrow> strptime env cs = None \<or> map_of ldap ''value'' = None
                 \<or> map_of ldap ''value'' = Some JNull)
          \<and> primary_username env base tkn uname =
              (case strptime env cs of
                 None \<Rightarrow> Inr None
               | Some t \<Rightarrow>
                   (case map_of ldap ''value'' of
                      None \<Rightarrow> Inr None
                    | Some email \<Rightarrow>
                        if email = JNull then Inr None
                        else Inr (Some
                          \<lparr>created = t,
                           first_name =
                             (case map_of fw ''value'' of None \<Rightarrow> JStr ''N/A'' | Some v \<Rightarrow> v),
                           last_name =
                             (case map_of lw ''value'' of None \<Rightarrow> JStr ''N/A'' | Some v \<Rightarrow> v),
                           alternative_name =
                             (case map_of aw ''value'' of None \<Rightarrow> JStr ''N/A'' | Some v \<Rightarrow> v),
                           primary_email =
                             (case map_of pw ''value'' of None \<Rightarrow> JStr ''N/A'' | Some v \<Rightarrow> v),
                           mozilla_ldap_primary_email = email\<rparr>))))"
proof (intro conjI impI)
  assume "requests_get env (full_url env base uname) (headers env tkn) = Inl RequestException"
  then show "primary_username env base tkn uname = Inr None"
    by (simp add: primary_username_def)
next
  assume h: "requests_get env (full_url env base uname) (headers env tkn) = Inr (Inr data)
       \<and> created_value data = Inr (JStr cs)
       \<and> ldap_identity data = Inr (JDict ldap)
       \<and> py_item data ''first_name'' = Inr (JDict fw)
       \<and> py_item data ''last_name'' = Inr (JDict lw)
       \<and> py_item data ''alternative_name'' = Inr (JDict aw)
       \<and> py_item data ''primary_email'' = Inr (JDict pw)"
  then have eq: "primary_username env base tkn uname =
              (case strptime env cs of
                 None \<Rightarrow> Inr None
               | Some t \<Rightarrow>
                   (case map_of ldap ''value'' of
                      None \<Rightarrow> Inr None
                    | Some email \<Rightarrow>
                        if email = JNull then Inr None
                        else Inr (Some
                          \<lparr>created = t,
                           first_name =
                             (case map_of fw ''value'' of None \<Rightarrow> JStr ''N/A'' | Some v \<Rightarrow> v),
                           last_name =
                             (case map_of lw ''value'' of None \<Rightarrow> JStr ''N/A'' | Some v \<Rightarrow> v),
                           alternative_name =
                             (case map_of aw ''value'' of None \<Rightarrow> JStr ''N/A'' | Some v \<Rightarrow> v),
                           primary_email =
                             (case map_of pw ''value'' of None \<Rightarrow> JStr ''N/A'' | Some v \<Rightarrow> v),
                           mozilla_ldap_primary_email = email\<rparr>)))"
    by (simp add: primary_username_def value_or_na_wrapper split: option.split)
  show "primary_username env base tkn uname =
              (case strptime env cs of
                 None \<Rightarrow> Inr None
               | Some t \<Rightarrow>
                   (case map_of ldap ''value'' of
                      None \<Rightarrow> Inr None
                    | Some email \<Rightarrow>
                        if email = JNull then Inr None
                        else Inr (Some
                          \<lparr>created = t,
                           first_name =
                             (case map_of fw ''value'' of None \<Rightarrow> JStr ''N/A'' | Some v \<Rightarrow> v),
                           last_name =
                             (case map_of lw ''value'' of None \<Rightarrow> JStr ''N/A'' | Some v \<Rightarrow> v),
                           alternative_name =
                             (case map_of aw ''value'' of None \<Rightarrow> JStr ''N/A'' | Some v \<Rightarrow> v),
                           primary_email =
                             (case map_of pw ''value'' of None \<Rightarrow> JStr ''N/A'' | Some v \<Rightarrow> v),
                           mozilla_ldap_primary_email = email\<rparr>)))"
    by (rule eq)
  show "primary_username env base tkn uname = Inr None
        \<longleftrightarrow> strptime env cs = None \<or> map_of ldap ''value'' = None
            \<or> map_of ldap ''value'' = Some JNull"
    by (simp add: eq split: option.split)
qed

theorem primary_username_result_witness:
  "primary_username ex_env PERSON_API_BASE (JStr ''token'') (JStr ''jdoe'') = Inr None
   \<and> primary_username (ex_env_directory ex_profile) PERSON_API_BASE (JStr ''token'')
       (JStr ''jdoe'')
     = Inr (Some \<lparr>created = 1577836800000000,
                  first_name = JStr ''N/A'',
                  last_name = JStr ''Doe'',
                  alternative_name = JStr ''JD'',
                  primary_email = JStr ''jdoe@example.com'',
                  mozilla_ldap_primary_email = JStr ''jdoe@ldap''\<rparr>)"
  using primary_username_result
    [of ex_env PERSON_API_BASE "JStr ''jdoe''" "JStr ''token''"]
    primary_username_result
    [of "ex_env_directory ex_profile" PERSON_API_BASE "JStr ''jdoe''" "JStr ''token''"
        ex_profile "''2020-01-01T00:00:00.000000Z''"
        "[(''value'', JStr ''jdoe@ldap'')]" "[]"
        "[(''value'', JStr ''Doe'')]" "[(''value'', JStr ''JD'')]"
        "[(''value'', JStr ''jdoe@example.com'')]"]
  by (simp add: ex_env_directory_def ex_env_def ex_get_body_def ex_get_unreachable_def
      ex_profile_def ex_strptime_def created_value_def ldap_identity_def)

section \<open>Session controller: the refresh of the token\<close>

text \<open>
  Claim C7 (the code falls short of it).  The test of the validity window and the
  re-authentication stand on lines 149-168, after the call of line 147, which raises
  TypeError on every message.  So \<open>onMessage\<close> never attempts an authentication and never
  raises AuthFailure, whatever the message and the clock.  In particular, on a well-formed
  alert of the codes-generated shape, which \<open>try_make_outbound\<close> turns into a request when
  it is given the session's token, and 19 hours after the last authentication,
  \<open>onMessage\<close> raises TypeError, attempts no authentication and leaves the session as it
  was.
\<close>

theorem onMessage_never_reauthenticates:
  "(\<forall>url params. Authenticated url params
        \<notin> set (snd (snd (onMessage env self message now1 now2))))
   \<and> fst (onMessage env self message now1 now2) \<noteq> Inl AuthFailure
   \<and> fst (try_make_outbound env
            (ex_alert ''duo'' [''duosecurity''] ''bypass codes generated''
               [ex_event ''object'' (JStr ''jdoe@example.com'')])
            (person_api_session ex_session))
       = Inr (Some \<lparr>identifier = JStr ''a1'', alert = DUO_BYPASS_CODES_GENERATED,
                    summary = ''DUO bypass codes have been generated for your account. '',
                    user = JStr ''jdoe@example.com''\<rparr>)
   \<and> real_of_int TOKEN_VALIDITY_WINDOW_MINUTES
       < real_of_int (68400000000 - last_authenticated ex_session) / 1000000 / 60
   \<and> onMessage env ex_session
         (ex_alert ''duo'' [''duosecurity''] ''bypass codes generated''
            [ex_event ''object'' (JStr ''jdoe@example.com'')])
         68400000000 68400000001
       = (Inl TypeError, ex_session, [])"
proof -
  have raises: "\<And>s m t1 t2. onMessage env s m t1 t2 = (Inl TypeError, s, [])"
    by (simp add: onMessage_def)
  have request: "fst (try_make_outbound env
            (ex_alert ''duo'' [''duosecurity''] ''bypass codes generated''
               [ex_event ''object'' (JStr ''jdoe@example.com'')])
            (person_api_session ex_session))
       = Inr (Some \<lparr>identifier = JStr ''a1'', alert = DUO_BYPASS_CODES_GENERATED,
                    summary = ''DUO bypass codes have been generated for your account. '',
                    user = JStr ''jdoe@example.com''\<rparr>)"
    by (simp add: try_make_outbound_def make_duo_code_gen_def ex_alert_def ex_event_def
        details_field_def documentsource_field_def)
  have window: "real_of_int TOKEN_VALIDITY_WINDOW_MINUTES
       < real_of_int (68400000000 - last_authenticated ex_session) / 1000000 / 60"
    by (simp add: TOKEN_VALIDITY_WINDOW_MINUTES_def ex_session_def)
  from raises request window show ?thesis by simp
qed

section \<open>The classifier on the store and the classifier on values agree\<close>

text \<open>
  In an ordered store, each operation on a closed value gives what the operation on
  documents gives on the document the value stands for.
\<close>

lemma closed_val_mono: "closed_val k v \<Longrightarrow> k \<le> k' \<Longrightarrow> closed_val k' v"
  by (cases v) auto

lemma reify_fuel:
  "ordered s \<Longrightarrow> closed_val k v \<Longrightarrow> k \<le> length s \<Longrightarrow> k \<le> n \<Longrightarrow> k \<le> m
   \<Longrightarrow> reify n s v = reify m s v"
proof (induction n arbitrary: m v k)
  case 0
  then show ?case by (cases v) auto
next
  case (Suc n)
  show ?case
  proof (cases v)
    case (PRef r)
    with Suc.prems have r: "r < k" by simp
    then obtain m' where m: "m = Suc m'" using Suc.prems by (cases m) auto
    have rl: "r < length s" using r Suc.prems by simp
    have ob: "closed_obj r (s ! r)" using Suc.prems(1) rl by (simp add: ordered_def)
    have ih: "\<And>x. closed_val r x \<Longrightarrow> reify n s x = reify m' s x"
      using Suc.IH [OF Suc.prems(1)] r rl Suc.prems m by auto
    show ?thesis
      using ob ih PRef m rl
      by (cases "s ! r") (auto simp add: list_all_iff)
  qed auto
qed

lemma reify_append:
  "ordered s \<Longrightarrow> closed_val k v \<Longrightarrow> k \<le> length s \<Longrightarrow> reify n (s @ t) v = reify n s v"
proof (induction n arbitrary: v k)
  case 0
  then show ?case by (cases v) auto
next
  case (Suc n)
  show ?case
  proof (cases v)
    case (PRef r)
    with Suc.prems have rl: "r < length s" by simp
    have ob: "closed_obj r (s ! r)" using Suc.prems(1) rl by (simp add: ordered_def)
    have ih: "\<And>x. closed_val r x \<Longrightarrow> reify n (s @ t) x = reify n s x"
      using Suc.IH [OF Suc.prems(1)] rl by auto
    show ?thesis
      using ob ih PRef rl
      by (cases "s ! r") (auto simp add: list_all_iff nth_append)
  qed auto
qed

lemma doc_append: "ordered s \<Longrightarrow> closed_val (length s) v \<Longrightarrow> doc (s @ t) v = doc s v"
  unfolding doc_def
  using reify_append [of s "length s" v "length (s @ t)" t]
    reify_fuel [of s "length s" v "length (s @ t)" "length s"]
  by simp

lemma doc_ref:
  assumes "ordered s" and "r < length s"
  shows "doc s (PRef r) =
     (case s ! r of
        ODict kvs \<Rightarrow> JDict (map (\<lambda>kv. (fst kv, doc s (snd kv))) kvs)
      | OList xs \<Rightarrow> JList (map (doc s) xs))"
proof -
  obtain n where n: "length s = Suc n" using assms(2) by (cases "length s") auto
  have ob: "closed_obj r (s ! r)" using assms by (simp add: ordered_def)
  have eq: "\<And>x. closed_val r x \<Longrightarrow> reify n s x = reify (Suc n) s x"
    using reify_fuel [OF assms(1), of r _ n "Suc n"] assms(2) n by auto
  show ?thesis
    using ob eq assms(2) n
    by (cases "s ! r") (auto simp add: doc_def list_all_iff)
qed

lemma doc_simps [simp]:
  "doc s PNone = JNull" "doc s (PBool b) = JBool b" "doc s (PNum i) = JNum i" "doc s (PStr t) = JStr t"
  by (simp_all add: doc_def)

lemma ordered_snoc: "ordered s \<Longrightarrow> closed_obj (length s) ob \<Longrightarrow> ordered (s @ [ob])"
  by (auto simp add: ordered_def nth_append less_Suc_eq)


lemma denotes_append: "ordered s \<Longrightarrow> denotes s v j \<Longrightarrow> denotes (s @ t) v j"
  by (auto simp add: denotes_def doc_append intro: closed_val_mono)

lemma denotes_prim [simp]:
  "denotes s PNone j \<longleftrightarrow> j = JNull" "denotes s (PStr t) j \<longleftrightarrow> j = JStr t"
  by (auto simp add: denotes_def)

lemma closed_child_dict:
  "ordered s \<Longrightarrow> r < length s \<Longrightarrow> s ! r = ODict kvs \<Longrightarrow> map_of kvs k = Some x
   \<Longrightarrow> closed_val (length s) x"
proof -
  assume a: "ordered s" "r < length s" "s ! r = ODict kvs" "map_of kvs k = Some x"
  then have "closed_obj r (ODict kvs)" by (auto simp add: ordered_def)
  moreover have "(k, x) \<in> set kvs" using a(4) by (rule map_of_SomeD)
  ultimately have "closed_val r x" by (auto simp add: list_all_iff)
  then show ?thesis using a(2) by (auto intro: closed_val_mono)
qed

lemma closed_child_list:
  "ordered s \<Longrightarrow> r < length s \<Longrightarrow> s ! r = OList xs \<Longrightarrow> x \<in> set xs
   \<Longrightarrow> closed_val (length s) x"
proof -
  assume a: "ordered s" "r < length s" "s ! r = OList xs" "x \<in> set xs"
  then have "closed_obj r (OList xs)" by (auto simp add: ordered_def)
  then have "closed_val r x" using a(4) by (auto simp add: list_all_iff)
  then show ?thesis using a(2) by (auto intro: closed_val_mono)
qed

lemma map_of_doc:
  "map_of (map (\<lambda>kv. (fst kv, doc s (snd kv))) kvs) k = map_option (doc s) (map_of kvs k)"
  by (induction kvs) auto

lemma st_bind_alloc [simp]:
  "st_bind (st_alloc ob) f s = f (PRef (length s)) (s @ [ob])"
  by (simp add: st_bind_def st_alloc_def)

lemma st_bind_return [simp]: "st_bind (st_return x) f s = f x s"
  by (simp add: st_bind_def st_return_def)

lemma st_bind_lift_Inr [simp]: "st_bind (st_lift (Inr x)) f s = f x s"
  by (simp add: st_bind_def st_lift_def)

lemma st_bind_lift_Inl [simp]: "fst (st_bind (st_lift (Inl e)) f s) = Inl e"
  by (simp add: st_bind_def st_lift_def)

lemma st_bind_reify: "st_bind (st_reify v) f s = f (doc s v) s"
  by (simp add: st_bind_def st_reify_def doc_def)

lemma st_bind_assoc: "st_bind (st_bind m f) g = st_bind m (\<lambda>x. st_bind (f x) g)"
  by (auto simp add: st_bind_def fun_eq_iff split: prod.splits sum.splits)

lemma bindE_assoc: "bindE (bindE m f) g = bindE m (\<lambda>x. bindE (f x) g)"
  by (cases m) auto

text \<open>
  The simulation steps: an operation on the store followed by \<open>f\<close> gives what the
  operation on documents followed by \<open>g\<close> gives, when \<open>f\<close> and \<open>g\<close> agree on every value
  and the document it denotes.
\<close>

lemma sim_get:
  assumes "ordered s" and "denotes s v jv" and "denotes s d jd"
    and "\<And>x jx. denotes s x jx \<Longrightarrow> fst (f x s) = g jx"
  shows "fst (st_bind (st_get v k d) f s) = bindE (py_get jv k jd) g"
proof (cases "lookup_obj s v")
  case None
  then have "jv \<noteq> JDict kvs" for kvs
    using assms(1,2) by (cases v) (auto simp add: denotes_def lookup_obj_def doc_ref split: if_splits)
  then have "py_get jv k jd = Inl AttributeError" by (cases jv) auto
  then show ?thesis using None by (simp add: st_bind_def st_get_def)
next
  case (Some ob)
  then obtain r where r: "v = PRef r" "r < length s" "s ! r = ob"
    by (cases v) (auto simp add: lookup_obj_def split: if_splits)
  show ?thesis
  proof (cases ob)
    case (ODict kvs)
    have jv: "jv = JDict (map (\<lambda>kv. (fst kv, doc s (snd kv))) kvs)"
      using assms(1,2) r ODict by (simp add: denotes_def doc_ref)
    show ?thesis
    proof (cases "map_of kvs k")
      case None
      then show ?thesis
        using Some ODict jv assms(3) assms(4) [of d jd]
        by (simp add: st_bind_def st_get_def map_of_doc)
    next
      case (Some x)
      have "denotes s x (doc s x)"
        using closed_child_dict [OF assms(1) r(2) _ Some] r ODict by (simp add: denotes_def)
      then show ?thesis
        using \<open>lookup_obj s v = Some ob\<close> ODict jv Some assms(4) [of x "doc s x"]
        by (simp add: st_bind_def st_get_def map_of_doc)
    qed
  next
    case (OList xs)
    have "jv = JList (map (doc s) xs)"
      using assms(1,2) r OList by (simp add: denotes_def doc_ref)
    then show ?thesis using Some OList by (simp add: st_bind_def st_get_def)
  qed
qed


lemma doc_ref_not_prim:
  "ordered s \<Longrightarrow> r < length s \<Longrightarrow> doc s (PRef r) \<noteq> JNull \<and> doc s (PRef r) \<noteq> JStr t
     \<and> doc s (PRef r) \<noteq> JBool b \<and> doc s (PRef r) \<noteq> JNum i"
  by (cases "s ! r") (simp_all add: doc_ref)

lemma denotes_eq_PNone: "ordered s \<Longrightarrow> denotes s x jx \<Longrightarrow> (jx = JNull) = (x = PNone)"
  using doc_ref_not_prim [of s] by (cases x) (auto simp add: denotes_def)

lemma denotes_eq_PStr: "ordered s \<Longrightarrow> denotes s x jx \<Longrightarrow> (jx = JStr t) = (x = PStr t)"
  using doc_ref_not_prim [of s] by (cases x) (auto simp add: denotes_def)

lemma sim_item:
  assumes "ordered s" and "denotes s v jv"
    and "\<And>x jx. denotes s x jx \<Longrightarrow> fst (f x s) = g jx"
  shows "fst (st_bind (st_item v k) f s) = bindE (py_item jv k) g"
proof (cases "lookup_obj s v")
  case None
  then have "jv \<noteq> JDict kvs" for kvs
    using assms(1,2) by (cases v) (auto simp add: denotes_def lookup_obj_def doc_ref split: if_splits)
  then have "py_item jv k = Inl TypeError" by (cases jv) auto
  then show ?thesis using None by (simp add: st_bind_def st_item_def)
next
  case (Some ob)
  then obtain r where r: "v = PRef r" "r < length s" "s ! r = ob"
    by (cases v) (auto simp add: lookup_obj_def split: if_splits)
  show ?thesis
  proof (cases ob)
    case (ODict kvs)
    have jv: "jv = JDict (map (\<lambda>kv. (fst kv, doc s (snd kv))) kvs)"
      using assms(1,2) r ODict by (simp add: denotes_def doc_ref)
    show ?thesis
    proof (cases "map_of kvs k")
      case None
      then show ?thesis
        using Some ODict jv by (simp add: st_bind_def st_item_def map_of_doc)
    next
      case (Some x)
      have "denotes s x (doc s x)"
        using closed_child_dict [OF assms(1) r(2) _ Some] r ODict by (simp add: denotes_def)
      then show ?thesis
        using \<open>lookup_obj s v = Some ob\<close> ODict jv Some assms(3) [of x "doc s x"]
        by (simp add: st_bind_def st_item_def map_of_doc)
    qed
  next
    case (OList xs)
    have "jv = JList (map (doc s) xs)"
      using assms(1,2) r OList by (simp add: denotes_def doc_ref)
    then show ?thesis using Some OList by (simp add: st_bind_def st_item_def)
  qed
qed

lemma sim_first:
  assumes "ordered s" and "denotes s v jv"
    and "\<And>x jx. denotes s x jx \<Longrightarrow> fst (f x s) = g jx"
  shows "fst (st_bind (st_first v) f s) = bindE (py_first jv) g"
proof (cases v)
  case (PStr t)
  then have jv: "jv = JStr t" using assms(2) by (simp add: denotes_def)
  show ?thesis
  proof (cases t)
    case Nil
    then show ?thesis using PStr jv by (simp add: st_bind_def st_first_def)
  next
    case (Cons c cs)
    then show ?thesis
      using PStr jv assms(3) [of "PStr [c]" "JStr [c]"]
      by (simp add: st_bind_def st_first_def)
  qed
next
  case (PRef r)
  then have rl: "r < length s" using assms(2) by (simp add: denotes_def)
  show ?thesis
  proof (cases "s ! r")
    case (ODict kvs)
    then have "jv = JDict (map (\<lambda>kv. (fst kv, doc s (snd kv))) kvs)"
      using assms(1,2) PRef rl by (simp add: denotes_def doc_ref)
    then show ?thesis
      using PRef rl ODict by (simp add: st_bind_def st_first_def lookup_obj_def)
  next
    case (OList xs)
    then have jv: "jv = JList (map (doc s) xs)"
      using assms(1,2) PRef rl by (simp add: denotes_def doc_ref)
    show ?thesis
    proof (cases xs)
      case Nil
      then show ?thesis
        using PRef rl OList jv by (simp add: st_bind_def st_first_def lookup_obj_def)
    next
      case (Cons x rest)
      have "denotes s x (doc s x)"
        using closed_child_list [OF assms(1) rl OList] Cons by (simp add: denotes_def)
      then show ?thesis
        using PRef rl OList jv Cons assms(3) [of x "doc s x"]
        by (simp add: st_bind_def st_first_def lookup_obj_def)
    qed
  qed
next
  case PNone
  then show ?thesis using assms(2) by (auto simp add: denotes_def st_bind_def st_first_def lookup_obj_def)
next
  case (PBool b)
  then show ?thesis using assms(2) by (auto simp add: denotes_def st_bind_def st_first_def lookup_obj_def)
next
  case (PNum i)
  then show ?thesis using assms(2) by (auto simp add: denotes_def st_bind_def st_first_def lookup_obj_def)
qed

lemma sim_in:
  assumes "ordered s" and "denotes s v jv"
    and "\<And>b. fst (f b s) = g b"
  shows "fst (st_bind (st_in n v) f s) = bindE (py_in n jv) g"
proof (cases v)
  case (PStr t)
  then have "jv = JStr t" using assms(2) by (simp add: denotes_def)
  then show ?thesis
    using PStr assms(3) by (simp add: st_bind_def st_in_def)
next
  case (PRef r)
  then have rl: "r < length s" using assms(2) by (simp add: denotes_def)
  show ?thesis
  proof (cases "s ! r")
    case (ODict kvs)
    then have "jv = JDict (map (\<lambda>kv. (fst kv, doc s (snd kv))) kvs)"
      using assms(1,2) PRef rl by (simp add: denotes_def doc_ref)
    moreover have "fst ` set (map (\<lambda>kv. (fst kv, doc s (snd kv))) kvs) = fst ` set kvs"
      by (induction kvs) auto
    ultimately show ?thesis
      using PRef rl ODict assms(3)
      by (simp add: st_bind_def st_in_def lookup_obj_def del: set_map)
  next
    case (OList xs)
    then have jv: "jv = JList (map (doc s) xs)"
      using assms(1,2) PRef rl by (simp add: denotes_def doc_ref)
    have "(JStr n \<in> doc s ` set xs) = (PStr n \<in> set xs)"
    proof
      assume "JStr n \<in> doc s ` set xs"
      then obtain x where x: "x \<in> set xs" "doc s x = JStr n" by auto
      have "denotes s x (JStr n)"
        using closed_child_list [OF assms(1) rl OList x(1)] x(2) by (simp add: denotes_def)
      then have "x = PStr n" using denotes_eq_PStr [OF assms(1)] by blast
      then show "PStr n \<in> set xs" using x(1) by simp
    next
      assume "PStr n \<in> set xs"
      then have "doc s (PStr n) \<in> doc s ` set xs" by (rule imageI)
      then show "JStr n \<in> doc s ` set xs" by simp
    qed
    then show ?thesis
      using PRef rl OList jv assms(3)
      by (simp add: st_bind_def st_in_def lookup_obj_def)
  qed
next
  case PNone
  then show ?thesis using assms(2) by (auto simp add: denotes_def st_bind_def st_in_def lookup_obj_def)
next
  case (PBool b)
  then show ?thesis using assms(2) by (auto simp add: denotes_def st_bind_def st_in_def lookup_obj_def)
next
  case (PNum i)
  then show ?thesis using assms(2) by (auto simp add: denotes_def st_bind_def st_in_def lookup_obj_def)
qed

lemma sim_split_last:
  assumes "ordered s" and "denotes s v jv"
    and "\<And>x jx. denotes s x jx \<Longrightarrow> fst (f x s) = g jx"
  shows "fst (st_bind (st_split_last v) f s) = bindE (py_split_last jv) g"
proof (cases v)
  case (PStr t)
  then have "jv = JStr t" using assms(2) by (simp add: denotes_def)
  then show ?thesis
    using PStr assms(3) [of "PStr (last (split_on CHR '' '' t))"] by simp
next
  case (PRef r)
  then have "r < length s" using assms(2) by (simp add: denotes_def)
  then have "py_split_last jv = Inl AttributeError"
    using assms(1,2) PRef by (cases "s ! r") (auto simp add: denotes_def doc_ref)
  then show ?thesis using PRef by simp
qed (use assms(2) in \<open>auto simp add: denotes_def\<close>)


lemma sim_documentsource_field:
  assumes "ordered s" and "denotes s events je"
    and "\<And>x jx. denotes s x jx \<Longrightarrow> fst (f x s) = g jx"
  shows "fst (st_bind (st_documentsource_field events k) f s)
         = bindE (documentsource_field je k) g"
  unfolding st_documentsource_field_def documentsource_field_def st_bind_assoc bindE_assoc
  by (rule sim_first [OF assms(1,2)], rule sim_item [OF assms(1)], assumption,
      rule sim_item [OF assms(1)], assumption, rule assms(3))

lemma sim_details_field:
  assumes "ordered s" and "denotes s events je"
    and "\<And>x jx. denotes s x jx \<Longrightarrow> fst (f x s) = g jx"
  shows "fst (st_bind (st_details_field events k) f s) = bindE (details_field je k) g"
  unfolding st_details_field_def details_field_def st_bind_assoc bindE_assoc
  by (rule sim_documentsource_field [OF assms(1,2)], rule sim_item [OF assms(1)], assumption,
      rule assms(3))

lemma fst_return [simp]: "fst (st_return x s) = Inr x"
  by (simp add: st_return_def)

lemma sim_get':
  assumes "ordered s" and "denotes s v jv" and "denotes s d jd"
    and "\<And>x jx. denotes s x jx \<Longrightarrow> (jx = JNull) = (x = PNone)
           \<Longrightarrow> (\<And>t. (jx = JStr t) = (x = PStr t)) \<Longrightarrow> fst (f x s) = g jx"
  shows "fst (st_bind (st_get v k d) f s) = bindE (py_get jv k jd) g"
  using assms(4) denotes_eq_PNone [OF assms(1)] denotes_eq_PStr [OF assms(1)]
  by (intro sim_get [OF assms(1,2,3)]) blast

lemma sim_item':
  assumes "ordered s" and "denotes s v jv"
    and "\<And>x jx. denotes s x jx \<Longrightarrow> (jx = JNull) = (x = PNone)
           \<Longrightarrow> (\<And>t. (jx = JStr t) = (x = PStr t)) \<Longrightarrow> fst (f x s) = g jx"
  shows "fst (st_bind (st_item v k) f s) = bindE (py_item jv k) g"
  using assms(3) denotes_eq_PNone [OF assms(1)] denotes_eq_PStr [OF assms(1)]
  by (intro sim_item [OF assms(1,2)]) blast

lemma sim_split_last':
  assumes "ordered s" and "denotes s v jv"
    and "\<And>x jx. denotes s x jx \<Longrightarrow> (jx = JNull) = (x = PNone)
           \<Longrightarrow> (\<And>t. (jx = JStr t) = (x = PStr t)) \<Longrightarrow> fst (f x s) = g jx"
  shows "fst (st_bind (st_split_last v) f s) = bindE (py_split_last jv) g"
  using assms(3) denotes_eq_PNone [OF assms(1)] denotes_eq_PStr [OF assms(1)]
  by (intro sim_split_last [OF assms(1,2)]) blast

lemma sim_details_field':
  assumes "ordered s" and "denotes s v jv"
    and "\<And>x jx. denotes s x jx \<Longrightarrow> (jx = JNull) = (x = PNone)
           \<Longrightarrow> (\<And>t. (jx = JStr t) = (x = PStr t)) \<Longrightarrow> fst (f x s) = g jx"
  shows "fst (st_bind (st_details_field v k) f s) = bindE (details_field jv k) g"
  using assms(3) denotes_eq_PNone [OF assms(1)] denotes_eq_PStr [OF assms(1)]
  by (intro sim_details_field [OF assms(1,2)]) blast

lemma sim_documentsource_field':
  assumes "ordered s" and "denotes s v jv"
    and "\<And>x jx. denotes s x jx \<Longrightarrow> (jx = JNull) = (x = PNone)
           \<Longrightarrow> (\<And>t. (jx = JStr t) = (x = PStr t)) \<Longrightarrow> fst (f x s) = g jx"
  shows "fst (st_bind (st_documentsource_field v k) f s) = bindE (documentsource_field jv k) g"
  using assms(3) denotes_eq_PNone [OF assms(1)] denotes_eq_PStr [OF assms(1)]
  by (intro sim_documentsource_field [OF assms(1,2)]) blast

lemma sim_reify:
  "denotes s v jv \<Longrightarrow> fst (f jv s) = q \<Longrightarrow> fst (st_bind (st_reify v) f s) = q"
  by (auto simp add: denotes_def st_bind_reify)

lemma denotes_snoc: "ordered s \<Longrightarrow> denotes s v j \<Longrightarrow> denotes (s @ [ob]) v j"
  by (rule denotes_append)

lemma denotes_fresh:
  "ordered (s @ [ob]) \<Longrightarrow> r = length s \<Longrightarrow> doc (s @ [ob]) (PRef r) = j
   \<Longrightarrow> denotes (s @ [ob]) (PRef r) j"
  by (auto simp add: denotes_def)

text \<open>The four extraction functions, then \<open>try_make_outbound\<close>.\<close>

lemmas sim_rules =
  sim_get' sim_item' sim_split_last' sim_details_field' sim_documentsource_field' sim_in

lemma refines_make_duo_code_gen:
  assumes "ordered s" and "denotes s a j"
  shows "fst (st_make_duo_code_gen env a tkn s) = fst (make_duo_code_gen env j tkn)"
  unfolding st_make_duo_code_gen_def make_duo_code_gen_def
  using assms
  apply (simp add: Let_def del: append_assoc)
  apply (assumption | rule sim_rules | rule denotes_fresh | rule denotes_snoc | rule sim_reify
         | rule impI | rule conjI
         | simp add: ordered_snoc doc_ref nth_append Let_def del: append_assoc)+
  done


lemma sim_lift:
  "(\<And>x. fst (f x s) = g x) \<Longrightarrow> fst (st_bind (st_lift m) f s) = bindE m g"
  by (cases m) simp_all

lemma refines_make_duo_code_used:
  assumes "ordered s" and "denotes s a j"
  shows "fst (st_make_duo_code_used env a tkn s) = fst (make_duo_code_used env j tkn)"
  unfolding st_make_duo_code_used_def make_duo_code_used_def
  using assms
  apply (simp add: Let_def del: append_assoc)
  apply (assumption | rule sim_rules | rule denotes_fresh | rule denotes_snoc | rule sim_reify
         | rule impI | rule conjI
         | simp add: ordered_snoc doc_ref nth_append Let_def del: append_assoc)+
  done

lemma refines_make_sensitive_host_access:
  assumes "ordered s" and "denotes s a j"
  shows "fst (st_make_sensitive_host_access env a tkn s)
         = fst (make_sensitive_host_access env j tkn)"
  unfolding st_make_sensitive_host_access_def make_sensitive_host_access_def
  using assms
  apply (simp add: Let_def del: append_assoc)
  apply (assumption | rule sim_rules | rule denotes_fresh | rule denotes_snoc | rule sim_reify
         | rule sim_lift | rule impI | rule conjI | rule allI
         | simp add: ordered_snoc doc_ref nth_append Let_def del: append_assoc
             split: option.split)+
  done

lemma refines_make_ssh_access_releng:
  assumes "ordered s" and "denotes s a j"
  shows "fst (st_make_ssh_access_releng env a tkn s) = fst (make_ssh_access_releng env j tkn)"
  unfolding st_make_ssh_access_releng_def make_ssh_access_releng_def
  using assms
  apply (simp add: Let_def st_bind_assoc bindE_assoc del: append_assoc)
  apply (assumption | rule sim_rules | rule denotes_fresh | rule denotes_snoc | rule sim_reify
         | rule sim_lift | rule impI | rule conjI | rule allI
         | simp add: ordered_snoc doc_ref nth_append Let_def del: append_assoc
             split: option.split)+
  done


lemma fst_case_bindE:
  "fst (case bindE m f of Inl e \<Rightarrow> (Inl e, a) | Inr t \<Rightarrow> g t)
   = bindE m (\<lambda>x. fst (case f x of Inl e \<Rightarrow> (Inl e, a) | Inr t \<Rightarrow> g t))"
  by (cases m) simp_all

lemma st_bind_if:
  "st_bind (if b then p else q) k = (if b then st_bind p k else st_bind q k)"
  by simp

lemma bindE_if:
  "bindE (if b then p else q) k = (if b then bindE p k else bindE q k)"
  by simp

lemmas refines_make =
  refines_make_sensitive_host_access refines_make_duo_code_gen
  refines_make_duo_code_used refines_make_ssh_access_releng

lemma refines_try_make_outbound:
  assumes "ordered s" and "denotes s message j"
  shows "fst (st_try_make_outbound env message tkn s) = fst (try_make_outbound env j tkn)"
  unfolding st_try_make_outbound_def try_make_outbound_def st_and_def py_and_def
    fst_case_bindE
  using assms
  apply (simp add: st_bind_assoc bindE_assoc st_bind_if bindE_if del: append_assoc)
  apply (assumption | rule sim_rules | rule denotes_fresh | rule denotes_snoc | rule refines_make
         | rule impI | rule conjI | rule allI
         | simp add: ordered_snoc doc_ref nth_append st_bind_assoc bindE_assoc
             st_bind_if bindE_if del: append_assoc)+
  done

text \<open>
  So, from an ordered store, the outcome of the classifier on a reference is the outcome of
  the classifier on the document it stands for, and after the call the reference stands
  for the same document.
\<close>

lemma st_try_make_outbound_outcome:
  assumes "ordered s" and "closed_val (length s) message"
  shows "fst (st_try_make_outbound env message tkn s)
         = fst (try_make_outbound env (doc s message) tkn)"
  using assms by (intro refines_try_make_outbound) (simp_all add: denotes_def)

lemma st_try_make_outbound_document:
  assumes "ordered s" and "closed_val (length s) message"
  shows "doc (snd (st_try_make_outbound env message tkn s)) message = doc s message"
proof -
  obtain new where "snd (st_try_make_outbound env message tkn s) = s @ new"
    using extends_try_make_outbound [of env message tkn]
    by (auto simp add: extends_store_def)
  then show ?thesis using assms by (simp add: doc_append)
qed

text \<open>The stored codes-generated alert is such a store.\<close>

lemma ex_store_ordered: "ordered ex_store \<and> closed_val (length ex_store) (PRef 6)"
  by (simp add: ordered_def ex_store_def All_less_Suc)

end
